theory Spec2Isabelle
  imports Main "HOL-Library.Word"
begin

section \<open>Bytes, strings and JavaScript values\<close>

text \<open>
  A \<^verbatim>\<open>Buffer\<close> is a sequence of octets. A JavaScript string is modelled by the sequence of
  its code points; a lone surrogate of the UTF-16 representation is a code point in
  \<open>0xD800..0xDFFF\<close>. Column values that are plain ASCII identifiers (enum members, uuids)
  are written as HOL strings.
\<close>

type_synonym byte = "8 word"
type_synonym bytes = "byte list"
type_synonym js_string = "nat list"
type_synonym date = nat

definition byte_of :: "nat \<Rightarrow> byte" where
  "byte_of n = of_nat n"

text \<open>A code point that UTF-8 can carry: below \<open>0x110000\<close> and not a surrogate.\<close>

definition scalar :: "nat \<Rightarrow> bool" where
  "scalar cp \<longleftrightarrow> cp < 0x110000 \<and> \<not> (0xD800 \<le> cp \<and> cp \<le> 0xDFFF)"

text \<open>
  The bytes of a string in UTF-8, as \<^verbatim>\<open>Buffer.from(str, "utf-8")\<close> produces them (and as
  \<^verbatim>\<open>zlib.deflate\<close> does for a string argument): a lone surrogate is written as the
  replacement character U+FFFD.
\<close>

definition utf8_encode_cp :: "nat \<Rightarrow> bytes" where
  "utf8_encode_cp cp =
     (if cp < 0x80 then [byte_of cp]
      else if cp < 0x800 then [byte_of (0xC0 + cp div 64), byte_of (0x80 + cp mod 64)]
      else if cp < 0x10000 then
        (if 0xD800 \<le> cp \<and> cp \<le> 0xDFFF then [0xEF, 0xBF, 0xBD]
         else [byte_of (0xE0 + cp div 4096), byte_of (0x80 + cp div 64 mod 64),
               byte_of (0x80 + cp mod 64)])
      else if cp < 0x110000 then
        [byte_of (0xF0 + cp div 262144), byte_of (0x80 + cp div 4096 mod 64),
         byte_of (0x80 + cp div 64 mod 64), byte_of (0x80 + cp mod 64)]
      else [0xEF, 0xBF, 0xBD])"

definition utf8_encode :: "js_string \<Rightarrow> bytes" where
  "utf8_encode s = concat (map utf8_encode_cp s)"

text \<open>
  \<^verbatim>\<open>buffer.toString("utf-8")\<close>: the decoder never fails; every ill-formed sequence is
  replaced by U+FFFD. The state is the code point collected so far, the number of
  continuation bytes still needed, and the range allowed for the next continuation byte.
  A byte that cannot continue the current sequence ends it with U+FFFD and is then read
  again as the start of a new sequence.
\<close>

function utf8_decode_from :: "nat \<Rightarrow> nat \<Rightarrow> nat \<Rightarrow> nat \<Rightarrow> bytes \<Rightarrow> js_string" where
  "utf8_decode_from cp needed lo hi [] = (if needed \<noteq> 0 then [0xFFFD] else [])"
| "utf8_decode_from cp needed lo hi (b # bs) =
     (if needed = 0 then
        (if unat b \<le> 0x7F then unat b # utf8_decode_from 0 0 0x80 0xBF bs
         else if 0xC2 \<le> unat b \<and> unat b \<le> 0xDF then
           utf8_decode_from (unat b mod 32) 1 0x80 0xBF bs
         else if 0xE0 \<le> unat b \<and> unat b \<le> 0xEF then
           utf8_decode_from (unat b mod 16) 2
             (if unat b = 0xE0 then 0xA0 else 0x80) (if unat b = 0xED then 0x9F else 0xBF) bs
         else if 0xF0 \<le> unat b \<and> unat b \<le> 0xF4 then
           utf8_decode_from (unat b mod 8) 3
             (if unat b = 0xF0 then 0x90 else 0x80) (if unat b = 0xF4 then 0x8F else 0xBF) bs
         else 0xFFFD # utf8_decode_from 0 0 0x80 0xBF bs)
      else if unat b < lo \<or> hi < unat b then
        0xFFFD # utf8_decode_from 0 0 0x80 0xBF (b # bs)
      else if needed = 1 then (cp * 64 + unat b mod 64) # utf8_decode_from 0 0 0x80 0xBF bs
      else utf8_decode_from (cp * 64 + unat b mod 64) (needed - 1) 0x80 0xBF bs)"
  by pat_completeness auto
termination
  by (relation "measure (\<lambda>(cp, needed, lo, hi, bs).
        2 * length bs + (if needed = 0 then 0 else 1))") auto

definition utf8_decode :: "bytes \<Rightarrow> js_string" where
  "utf8_decode bs = utf8_decode_from 0 0 0x80 0xBF bs"

text \<open>
  The values the \<^verbatim>\<open>message\<close> property can hold at run time. The declared type is
  \<^verbatim>\<open>Buffer\<close>; the hook's guard \<^verbatim>\<open>if (this.message)\<close> also answers for an unset
  property and for a string.
\<close>

datatype js_value = Undefined | Null | JSString js_string | JSBuffer bytes

fun truthy :: "js_value \<Rightarrow> bool" where
  "truthy Undefined = False"
| "truthy Null = False"
| "truthy (JSString s) = (s \<noteq> [])"
| "truthy (JSBuffer b) = True"

datatype js_error =
    TypeError
  | Z_DATA_ERROR
  | Z_BUF_ERROR
  | Z_NEED_DICT
  | ERR_BUFFER_TOO_LARGE

text \<open>\<^verbatim>\<open>this.message.toString("utf-8")\<close>: a string ignores the argument and returns itself.\<close>

fun toString_utf8 :: "js_value \<Rightarrow> js_error + js_string" where
  "toString_utf8 Undefined = Inl TypeError"
| "toString_utf8 Null = Inl TypeError"
| "toString_utf8 (JSString s) = Inr s"
| "toString_utf8 (JSBuffer b) = Inr (utf8_decode b)"

text \<open>\<^verbatim>\<open>Buffer.from(this.message)\<close>: throws a TypeError for \<^verbatim>\<open>undefined\<close> and \<^verbatim>\<open>null\<close>.\<close>

fun Buffer_from :: "js_value \<Rightarrow> js_error + bytes" where
  "Buffer_from Undefined = Inl TypeError"
| "Buffer_from Null = Inl TypeError"
| "Buffer_from (JSString s) = Inr (utf8_encode s)"
| "Buffer_from (JSBuffer b) = Inr b"

section \<open>The zlib codec\<close>

text \<open>
  \<^verbatim>\<open>deflate\<close> and \<^verbatim>\<open>unzip\<close> are imported from \<^verbatim>\<open>node:zlib\<close>; the entity only calls them.
  They are a parameter of the model: a pair of functions on byte sequences that either
  return a buffer or reject with an error.
\<close>

record zlib =
  deflate :: "bytes \<Rightarrow> js_error + bytes"
  unzip :: "bytes \<Rightarrow> js_error + bytes"

text \<open>\<^verbatim>\<open>deflateAsync(str)\<close>: a string argument is turned into its UTF-8 bytes first.\<close>

definition deflateAsync :: "zlib \<Rightarrow> js_string \<Rightarrow> js_error + bytes" where
  "deflateAsync z s = deflate z (utf8_encode s)"

definition unzipAsync :: "zlib \<Rightarrow> bytes \<Rightarrow> js_error + bytes" where
  "unzipAsync z b = unzip z b"

subsection \<open>An instance: zlib streams of stored blocks\<close>

text \<open>
  An instance of the parameter on which the theorems are evaluated: the zlib container
  (two header bytes, deflate blocks, Adler-32 of the payload, big-endian) whose deflate
  blocks are all of the stored kind (block header, length and its complement in two
  little-endian bytes each, then the payload bytes). \<open>stored_deflate limit\<close> rejects with
  \<^verbatim>\<open>ERR_BUFFER_TOO_LARGE\<close> when the stream would be longer than \<open>limit\<close>, the largest
  output buffer the codec may allocate; a small limit gives a codec whose \<^verbatim>\<open>deflate\<close>
  fails. \<open>stored_unzip\<close> checks the container and reads stored blocks only; every stream
  that \<open>stored_deflate\<close> writes is a zlib stream, and \<open>stored_unzip\<close> gives its payload back.
\<close>

definition adler32 :: "bytes \<Rightarrow> nat" where
  "adler32 bs =
     (case fold (\<lambda>x (a, b). let a' = (a + unat x) mod 65521 in (a', (b + a') mod 65521))
             bs (1, 0)
      of (a, b) \<Rightarrow> b * 65536 + a)"

definition be32 :: "nat \<Rightarrow> bytes" where
  "be32 n = [byte_of (n div 16777216 mod 256), byte_of (n div 65536 mod 256),
             byte_of (n div 256 mod 256), byte_of (n mod 256)]"

definition le16 :: "nat \<Rightarrow> bytes" where
  "le16 n = [byte_of (n mod 256), byte_of (n div 256 mod 256)]"

function stored_blocks :: "bytes \<Rightarrow> bytes" where
  "stored_blocks bs =
     (if length bs \<le> 65535
      then [0x01] @ le16 (length bs) @ le16 (65535 - length bs) @ bs
      else [0x00] @ le16 65535 @ le16 0 @ take 65535 bs @ stored_blocks (drop 65535 bs))"
  by pat_completeness auto
termination
  by (relation "measure length") auto

declare stored_blocks.simps [simp del]

definition stored_deflate :: "nat \<Rightarrow> bytes \<Rightarrow> js_error + bytes" where
  "stored_deflate limit bs =
     (let out = [0x78, 0x01] @ stored_blocks bs @ be32 (adler32 bs)
      in if limit < length out then Inl ERR_BUFFER_TOO_LARGE else Inr out)"

text \<open>
  Reading the blocks: the result is the payload read so far and the bytes after the final
  block. A block type other than stored, a length that does not match its complement, and
  a stream that ends early are errors.
\<close>

function inflate_stored :: "bytes \<Rightarrow> bytes \<Rightarrow> js_error + (bytes \<times> bytes)" where
  "inflate_stored acc (h # l0 # l1 # n0 # n1 # rest) =
     (let len = unat l0 + 256 * unat l1; nlen = unat n0 + 256 * unat n1
      in if unat h div 2 mod 4 \<noteq> 0 then Inl Z_DATA_ERROR
         else if len + nlen \<noteq> 65535 then Inl Z_DATA_ERROR
         else if length rest < len then Inl Z_BUF_ERROR
         else if unat h mod 2 = 1 then Inr (acc @ take len rest, drop len rest)
         else inflate_stored (acc @ take len rest) (drop len rest))"
| "inflate_stored acc [] = Inl Z_BUF_ERROR"
| "inflate_stored acc [h] = (if unat h div 2 mod 4 = 3 then Inl Z_DATA_ERROR else Inl Z_BUF_ERROR)"
| "inflate_stored acc [h, l0] =
     (if unat h div 2 mod 4 \<noteq> 0 then Inl Z_DATA_ERROR else Inl Z_BUF_ERROR)"
| "inflate_stored acc [h, l0, l1] =
     (if unat h div 2 mod 4 \<noteq> 0 then Inl Z_DATA_ERROR else Inl Z_BUF_ERROR)"
| "inflate_stored acc [h, l0, l1, n0] =
     (if unat h div 2 mod 4 \<noteq> 0 then Inl Z_DATA_ERROR else Inl Z_BUF_ERROR)"
  by pat_completeness auto
termination
  by (relation "measure (\<lambda>(acc, bs). length bs)") auto

definition stored_unzip :: "bytes \<Rightarrow> js_error + bytes" where
  "stored_unzip bs =
     (case bs of
        [] \<Rightarrow> Inl Z_BUF_ERROR
      | [cmf] \<Rightarrow> Inl Z_BUF_ERROR
      | cmf # flg # body \<Rightarrow>
          if (unat cmf * 256 + unat flg) mod 31 \<noteq> 0 \<or> unat cmf mod 16 \<noteq> 8
             \<or> 7 < unat cmf div 16
          then Inl Z_DATA_ERROR
          else if unat flg div 32 mod 2 = 1 then Inl Z_NEED_DICT
          else (case inflate_stored [] body of
                  Inl e \<Rightarrow> Inl e
                | Inr (payload, trailer) \<Rightarrow>
                    if length trailer < 4 then Inl Z_BUF_ERROR
                    else if take 4 trailer \<noteq> be32 (adler32 payload) then Inl Z_DATA_ERROR
                    else Inr payload))"

definition stored_zlib :: "nat \<Rightarrow> zlib" where
  "stored_zlib limit = \<lparr> deflate = stored_deflate limit, unzip = stored_unzip \<rparr>"

section \<open>The declared schema\<close>

text \<open>
  The entity classes are declarations: \<^verbatim>\<open>@Column\<close> and the relation decorators say what
  the store keeps and checks. A declaration is transcribed as a value, option by option.
\<close>

datatype entity =
  User | Device | Studio | Playlist | Music | Photo | Video | MediaInteraction | Notification

datatype column_type =
    T_uuid
  | T_varchar nat
  | T_text
  | T_int
  | T_bigint
  | T_decimal nat nat
  | T_boolean
  | T_timestamp
  | T_date
  | T_bytea
  | T_simple_array
  | T_enum "string list"

datatype default_value = DString string | DInt int | DBool bool | CURRENT_TIMESTAMP

text \<open>
  \<^verbatim>\<open>@Column({ type, length, nullable, unique, default })\<close>. A column is not nullable and
  not unique unless the options say so.
\<close>

record column =
  name :: string
  sqltype :: column_type
  nullable :: bool
  unique :: bool
  dflt :: "default_value option"

definition col :: "string \<Rightarrow> column_type \<Rightarrow> column" where
  "col n t = \<lparr> name = n, sqltype = t, nullable = False, unique = False, dflt = None \<rparr>"

datatype on_delete = NO_ACTION | SET_NULL

text \<open>
  \<^verbatim>\<open>@ManyToOne(() => T, inverse, { nullable, onDelete })\<close> on a property whose TypeScript
  type is \<^verbatim>\<open>Relation<D> | null\<close>: \<open>target\<close> is \<open>T\<close>, the class the decorator names and the
  store's foreign key points to; \<open>declared\<close> is \<open>D\<close>. Without the option the relation is
  nullable.
\<close>

record relation =
  property :: string
  target :: entity
  declared :: entity
  nullable :: bool
  onDelete :: on_delete

subsection \<open>The media classes\<close>

text \<open>\<^verbatim>\<open>BaseUUIDEntity\<close>, as declared in the file that also declares \<^verbatim>\<open>BaseMediaItem\<close>.\<close>

definition BaseUUIDEntity_columns :: "column list" where
  "BaseUUIDEntity_columns =
     [ col ''uuid'' T_uuid,
       (col ''createdAt'' T_timestamp)\<lparr>dflt := Some CURRENT_TIMESTAMP\<rparr>,
       (col ''updatedAt'' T_timestamp)\<lparr>dflt := Some CURRENT_TIMESTAMP\<rparr> ]"

text \<open>\<^verbatim>\<open>abstract class BaseMediaItem extends BaseUUIDEntity\<close>.\<close>

definition BaseMediaItem_columns :: "column list" where
  "BaseMediaItem_columns = BaseUUIDEntity_columns @
     [ col ''url'' (T_varchar 255),
       col ''title'' (T_varchar 255),
       (col ''description'' (T_varchar 255))\<lparr>column.nullable := True\<rparr>,
       (col ''status'' (T_varchar 50))\<lparr>dflt := Some (DString ''active'')\<rparr>,
       (col ''archivedAt'' T_timestamp)\<lparr>column.nullable := True\<rparr>,
       (col ''deletedAt'' T_timestamp)\<lparr>column.nullable := True\<rparr>,
       (col ''version'' T_int)\<lparr>dflt := Some (DInt 1)\<rparr>,
       (col ''availableFormats'' T_simple_array)\<lparr>column.nullable := True\<rparr>,
       col ''fileSize'' T_bigint,
       col ''format'' (T_varchar 50),
       col ''mimeType'' (T_varchar 100),
       col ''storagePath'' (T_varchar 255),
       (col ''checksum'' (T_varchar 64))\<lparr>column.nullable := True\<rparr>,
       col ''storageProvider'' (T_varchar 100),
       col ''hostingLocation'' (T_varchar 100),
       (col ''viewCount'' T_int)\<lparr>dflt := Some (DInt 0)\<rparr>,
       (col ''downloadCount'' T_int)\<lparr>dflt := Some (DInt 0)\<rparr>,
       (col ''lastAccessedAt'' T_timestamp)\<lparr>column.nullable := True\<rparr>,
       (col ''drmProtected'' T_boolean)\<lparr>dflt := Some (DBool False)\<rparr>,
       (col ''drmType'' (T_varchar 50))\<lparr>column.nullable := True\<rparr>,
       (col ''licenseExpiryDate'' T_date)\<lparr>column.nullable := True\<rparr>,
       (col ''regionRestrictions'' (T_varchar 255))\<lparr>column.nullable := True\<rparr>,
       (col ''downloadAllowed'' T_boolean)\<lparr>dflt := Some (DBool False)\<rparr>,
       (col ''streamingAllowed'' T_boolean)\<lparr>dflt := Some (DBool True)\<rparr> ]"

text \<open>\<^verbatim>\<open>class Music extends BaseUUIDEntity\<close>, the only declaration of \<^verbatim>\<open>Music\<close>.\<close>

definition Music_columns :: "column list" where
  "Music_columns = BaseUUIDEntity_columns @
     [ col ''url'' (T_varchar 255),
       col ''title'' (T_varchar 255),
       col ''artist'' (T_varchar 255),
       (col ''album'' (T_varchar 255))\<lparr>column.nullable := True\<rparr>,
       (col ''genre'' (T_varchar 100))\<lparr>column.nullable := True\<rparr>,
       col ''duration'' T_int,
       col ''format'' (T_varchar 50),
       col ''releasedAt'' T_timestamp ]"

definition Music_playlist :: relation where
  "Music_playlist = \<lparr> property = ''playlist'', target = Music, declared = Playlist,
                       nullable = True, onDelete = NO_ACTION \<rparr>"

text \<open>
  \<^verbatim>\<open>Photo\<close> is declared twice: once extending \<^verbatim>\<open>BaseMediaItem\<close>, once extending
  \<^verbatim>\<open>BaseUUIDEntity\<close>. Both declare the same relation.
\<close>

definition Photo_BaseMediaItem_columns :: "column list" where
  "Photo_BaseMediaItem_columns = BaseMediaItem_columns @
     [ col ''height'' T_int,
       col ''width'' T_int,
       col ''capturedAt'' T_timestamp ]"

definition Photo_BaseUUIDEntity_columns :: "column list" where
  "Photo_BaseUUIDEntity_columns = BaseUUIDEntity_columns @
     [ col ''url'' (T_varchar 255),
       col ''title'' (T_varchar 255),
       (col ''description'' (T_varchar 255))\<lparr>column.nullable := True\<rparr>,
       col ''height'' T_int,
       col ''width'' T_int,
       col ''format'' (T_varchar 50),
       col ''capturedAt'' T_timestamp ]"

definition Photo_playlist :: relation where
  "Photo_playlist = \<lparr> property = ''playlist'', target = Photo, declared = Playlist,
                       nullable = True, onDelete = NO_ACTION \<rparr>"

text \<open>\<^verbatim>\<open>Video\<close> is declared twice in the same way.\<close>

definition Video_BaseMediaItem_columns :: "column list" where
  "Video_BaseMediaItem_columns = BaseMediaItem_columns @
     [ col ''duration'' T_int,
       col ''resolution'' (T_varchar 20),
       col ''codec'' (T_varchar 50),
       col ''frameRate'' (T_decimal 5 2),
       col ''uploadedAt'' T_timestamp ]"

definition Video_BaseUUIDEntity_columns :: "column list" where
  "Video_BaseUUIDEntity_columns = BaseUUIDEntity_columns @
     [ col ''url'' (T_varchar 255),
       col ''title'' (T_varchar 255),
       (col ''description'' (T_varchar 255))\<lparr>column.nullable := True\<rparr>,
       col ''duration'' T_int,
       col ''resolution'' (T_varchar 20),
       col ''format'' (T_varchar 50),
       col ''uploadedAt'' T_timestamp ]"

definition Video_playlist :: relation where
  "Video_playlist = \<lparr> property = ''playlist'', target = Video, declared = Playlist,
                       nullable = True, onDelete = NO_ACTION \<rparr>"

subsection \<open>The media-asset attribute set of the specification\<close>

text \<open>
  The shared media-asset shape as the specification words it, to be compared with the
  declared columns: an attribute is required, optional, or has a default.
\<close>

datatype requirement = Required | Optional | Defaulting default_value

definition media_asset_attributes :: "(string \<times> requirement) list" where
  "media_asset_attributes =
     [ (''url'', Required),
       (''title'', Required),
       (''description'', Optional),
       (''status'', Defaulting (DString ''active'')),
       (''version'', Defaulting (DInt 1)),
       (''fileSize'', Required),
       (''format'', Required),
       (''mimeType'', Required),
       (''storagePath'', Required),
       (''checksum'', Optional),
       (''storageProvider'', Required),
       (''hostingLocation'', Required),
       (''viewCount'', Defaulting (DInt 0)),
       (''downloadCount'', Defaulting (DInt 0)),
       (''drmProtected'', Defaulting (DBool False)),
       (''drmType'', Optional),
       (''licenseExpiryDate'', Optional),
       (''regionRestrictions'', Optional),
       (''downloadAllowed'', Defaulting (DBool False)),
       (''streamingAllowed'', Defaulting (DBool True)) ]"

fun meets :: "column \<Rightarrow> requirement \<Rightarrow> bool" where
  "meets c Required = (\<not> column.nullable c \<and> dflt c = None)"
| "meets c Optional = column.nullable c"
| "meets c (Defaulting v) = (dflt c = Some v)"

text \<open>A class carries an attribute when it declares a column of that name that meets it.\<close>

definition carries :: "column list \<Rightarrow> string \<times> requirement \<Rightarrow> bool" where
  "carries cols a =
     (case find (\<lambda>c. name c = fst a) cols of None \<Rightarrow> False | Some c \<Rightarrow> meets c (snd a))"

subsection \<open>Relations of MediaInteraction and Notification\<close>

definition MediaInteraction_user :: relation where
  "MediaInteraction_user = \<lparr> property = ''user'', target = User, declared = User,
                              nullable = True, onDelete = NO_ACTION \<rparr>"

definition MediaInteraction_music :: relation where
  "MediaInteraction_music = \<lparr> property = ''music'', target = Music, declared = Music,
                               nullable = True, onDelete = NO_ACTION \<rparr>"

definition MediaInteraction_photo :: relation where
  "MediaInteraction_photo = \<lparr> property = ''photo'', target = Photo, declared = Photo,
                               nullable = True, onDelete = NO_ACTION \<rparr>"

definition MediaInteraction_video :: relation where
  "MediaInteraction_video = \<lparr> property = ''video'', target = Video, declared = Video,
                               nullable = True, onDelete = NO_ACTION \<rparr>"

definition MediaInteraction_playlist :: relation where
  "MediaInteraction_playlist = \<lparr> property = ''playlist'', target = Playlist,
                                  declared = Playlist, nullable = True,
                                  onDelete = NO_ACTION \<rparr>"

definition Notification_studio :: relation where
  "Notification_studio = \<lparr> property = ''studio'', target = Studio, declared = Studio,
                            nullable = True, onDelete = SET_NULL \<rparr>"

definition Notification_user :: relation where
  "Notification_user = \<lparr> property = ''user'', target = User, declared = User,
                          nullable = True, onDelete = SET_NULL \<rparr>"

section \<open>The Notification entity\<close>

text \<open>
  \<^verbatim>\<open>BaseUUIDEntity\<close>: the primary key and the two timestamps, all three assigned by the
  store. \<open>None\<close> is a property not yet set.
\<close>

record base_uuid_entity =
  uuid :: "string option"
  createdAt :: "date option"
  updatedAt :: "date option"

text \<open>
  \<^verbatim>\<open>class Notification extends BaseUUIDEntity\<close>. The two relations hold the key of the
  studio and of the user.
\<close>

record notification = base_uuid_entity +
  studio :: "string option"
  user :: "string option"
  channel :: "string option"
  message :: js_value
  status :: "string option"
  sendAt :: "date option"
  deliveredAt :: "date option"
  errorLog :: "string option"
  subject :: "string option"

text \<open>What \<^verbatim>\<open>console.error\<close> has printed: the label and the error caught.\<close>

type_synonym console = "(string \<times> js_error) list"

text \<open>
  \<^verbatim>\<open>compressMessage\<close>, the \<^verbatim>\<open>@BeforeInsert\<close> and \<^verbatim>\<open>@BeforeUpdate\<close> hook. The \<^verbatim>\<open>try\<close>
  block covers both \<^verbatim>\<open>toString\<close> and \<^verbatim>\<open>deflateAsync\<close>; the \<^verbatim>\<open>catch\<close> block prints and
  returns normally. The result is the entity after the hook and the console output.
\<close>

definition compressMessage :: "zlib \<Rightarrow> notification \<Rightarrow> notification \<times> console" where
  "compressMessage z n =
     (if truthy (message n) then
        (case (case toString_utf8 (message n) of
                 Inl e \<Rightarrow> Inl e
               | Inr s \<Rightarrow> deflateAsync z s)
         of Inr c \<Rightarrow> (n\<lparr>message := JSBuffer c\<rparr>, [])
          | Inl error \<Rightarrow> (n, [(''Compression error:'', error)]))
      else (n, []))"

text \<open>
  \<^verbatim>\<open>getMessage\<close>. \<^verbatim>\<open>Buffer.from\<close> stands before the \<^verbatim>\<open>try\<close> block, so its TypeError
  rejects the promise (\<open>Inl\<close>); an error of \<^verbatim>\<open>unzipAsync\<close> is caught, printed, and the
  initial value \<^verbatim>\<open>""\<close> of \<^verbatim>\<open>message\<close> is returned.
\<close>

definition getMessage :: "zlib \<Rightarrow> notification \<Rightarrow> (js_error + js_string) \<times> console" where
  "getMessage z n =
     (case Buffer_from (message n) of
        Inl e \<Rightarrow> (Inl e, [])
      | Inr buffer \<Rightarrow>
          (case unzipAsync z buffer of
             Inr decompressedBuffer \<Rightarrow> (Inr (utf8_decode decompressedBuffer), [])
           | Inl error \<Rightarrow> (Inr [], [(''Decompression error:'', error)])))"

section \<open>The store\<close>

text \<open>
  The classes are saved through the ORM into a relational store, which enforces what the
  decorators declare: NOT NULL for a column that is not nullable, the length of a
  \<^verbatim>\<open>varchar\<close>, the members of an \<^verbatim>\<open>enum\<close>, \<^verbatim>\<open>unique\<close>, and the foreign key of a relation.
  A write that breaks one of them is rejected with the error of the first check that
  fails and leaves the store as it was.
\<close>

datatype db_error =
    NotNullViolation string
  | StringTooLong string
  | InvalidEnumValue string
  | UniqueViolation string
  | ForeignKeyViolation string

text \<open>\<^verbatim>\<open>class User extends BaseUUIDEntity\<close>; its four \<^verbatim>\<open>@OneToMany\<close> sides own no column.\<close>

record user = base_uuid_entity +
  accountType :: "string option"
  channel :: "string option"
  phoneNumber :: "string option"
  secondaryPhoneNumber :: "string option"
  email :: "string option"
  secondaryEmail :: "string option"
  validatedPhoneNumber :: "bool option"
  validatedEmail :: "bool option"
  pin :: "string option"
  password_hash :: "string option"
  dateOfBirth :: "date option"

text \<open>\<^verbatim>\<open>class MediaInteraction extends BaseUUIDEntity\<close>; a relation holds the key it refers to.\<close>

record media_interaction = base_uuid_entity +
  interactionType :: "string option"
  timestamp :: "date option"
  user :: "string option"
  music :: "string option"
  photo :: "string option"
  video :: "string option"
  playlist :: "string option"

text \<open>
  The tables. The rows of the three classes above and of \<^verbatim>\<open>Notification\<close> are kept whole;
  of the other tables only the primary keys matter here.
\<close>

record db =
  User_rows :: "user list"
  Device_keys :: "string list"
  Studio_keys :: "string list"
  Playlist_keys :: "string list"
  Music_keys :: "string list"
  Photo_keys :: "string list"
  Video_keys :: "string list"
  MediaInteraction_rows :: "media_interaction list"
  Notification_rows :: "notification list"

fun keys :: "db \<Rightarrow> entity \<Rightarrow> string list" where
  "keys d User = List.map_filter uuid (User_rows d)"
| "keys d Device = Device_keys d"
| "keys d Studio = Studio_keys d"
| "keys d Playlist = Playlist_keys d"
| "keys d Music = Music_keys d"
| "keys d Photo = Photo_keys d"
| "keys d Video = Video_keys d"
| "keys d MediaInteraction = List.map_filter uuid (MediaInteraction_rows d)"
| "keys d Notification = List.map_filter uuid (Notification_rows d)"

subsection \<open>The checks of a write\<close>

fun first_error :: "db_error option list \<Rightarrow> db_error option" where
  "first_error [] = None"
| "first_error (None # cs) = first_error cs"
| "first_error (Some e # cs) = Some e"

definition not_null :: "string \<Rightarrow> 'a option \<Rightarrow> db_error option" where
  "not_null c v = (case v of None \<Rightarrow> Some (NotNullViolation c) | Some x \<Rightarrow> None)"

definition varchar :: "nat \<Rightarrow> string \<Rightarrow> string option \<Rightarrow> db_error option" where
  "varchar len c v =
     (case v of None \<Rightarrow> None
      | Some s \<Rightarrow> if len < length s then Some (StringTooLong c) else None)"

definition enum :: "string list \<Rightarrow> string \<Rightarrow> string option \<Rightarrow> db_error option" where
  "enum members c v =
     (case v of None \<Rightarrow> None
      | Some s \<Rightarrow> if s \<in> set members then None else Some (InvalidEnumValue c))"

text \<open>A unique column: no other row holds the same value; NULL never conflicts.\<close>

definition unique_among :: "string \<Rightarrow> 'a option list \<Rightarrow> 'a option \<Rightarrow> db_error option" where
  "unique_among c others v =
     (case v of None \<Rightarrow> None
      | Some x \<Rightarrow> if Some x \<in> set others then Some (UniqueViolation c) else None)"

text \<open>The foreign key of a relation points into the table of the relation's target.\<close>

definition references :: "db \<Rightarrow> relation \<Rightarrow> string option \<Rightarrow> db_error option" where
  "references d r v =
     (case v of
        None \<Rightarrow> if nullable r then None else Some (NotNullViolation (property r))
      | Some k \<Rightarrow>
          if k \<in> set (keys d (target r)) then None
          else Some (ForeignKeyViolation (property r)))"

subsection \<open>Users\<close>

definition User_defaults :: "user \<Rightarrow> user" where
  "User_defaults u =
     u\<lparr> validatedPhoneNumber :=
          (case validatedPhoneNumber u of None \<Rightarrow> Some False | Some b \<Rightarrow> Some b),
        validatedEmail :=
          (case validatedEmail u of None \<Rightarrow> Some False | Some b \<Rightarrow> Some b) \<rparr>"

definition User_column_checks :: "user \<Rightarrow> db_error option list" where
  "User_column_checks u =
     [ varchar 255 ''accountType'' (accountType u),
       varchar 255 ''channel'' (user.channel u),
       varchar 255 ''phoneNumber'' (phoneNumber u),
       varchar 255 ''secondaryPhoneNumber'' (secondaryPhoneNumber u),
       not_null ''email'' (email u),
       varchar 255 ''email'' (email u),
       varchar 255 ''secondaryEmail'' (secondaryEmail u),
       not_null ''validatedPhoneNumber'' (validatedPhoneNumber u),
       not_null ''validatedEmail'' (validatedEmail u),
       not_null ''pin'' (pin u),
       varchar 128 ''pin'' (pin u),
       not_null ''password_hash'' (password_hash u),
       varchar 255 ''password_hash'' (password_hash u) ]"

definition User_unique_checks :: "user list \<Rightarrow> user \<Rightarrow> db_error option list" where
  "User_unique_checks others u =
     [ unique_among ''uuid'' (map uuid others) (uuid u),
       unique_among ''phoneNumber'' (map phoneNumber others) (phoneNumber u),
       unique_among ''email'' (map email others) (email u) ]"

text \<open>
  Creating a user: the store assigns the key and both timestamps (\<open>key\<close> is the generated
  uuid, \<open>now\<close> the clock), fills the defaults and runs the checks.
\<close>

definition insert_User :: "string \<Rightarrow> date \<Rightarrow> db \<Rightarrow> user \<Rightarrow> db_error + db" where
  "insert_User key now d u =
     (let row = User_defaults (u\<lparr> uuid := Some key, createdAt := Some now,
                                   updatedAt := Some now \<rparr>)
      in case first_error (User_column_checks row @ User_unique_checks (User_rows d) row) of
           Some e \<Rightarrow> Inl e
         | None \<Rightarrow> Inr (d\<lparr> User_rows := User_rows d @ [row] \<rparr>))"

text \<open>Updating the user with the entity's key: the row is replaced as a whole.\<close>

definition update_User :: "date \<Rightarrow> db \<Rightarrow> user \<Rightarrow> db_error + db" where
  "update_User now d u =
     (let row = u\<lparr> updatedAt := Some now \<rparr>;
          others = filter (\<lambda>r. uuid r \<noteq> uuid row) (User_rows d)
      in case first_error (User_column_checks row @ User_unique_checks others row) of
           Some e \<Rightarrow> Inl e
         | None \<Rightarrow>
             Inr (d\<lparr> User_rows := map (\<lambda>r. if uuid r = uuid row then row else r)
                                        (User_rows d) \<rparr>))"

subsection \<open>Media interactions\<close>

definition MediaInteraction_checks :: "db \<Rightarrow> media_interaction \<Rightarrow> db_error option list" where
  "MediaInteraction_checks d i =
     [ unique_among ''uuid'' (map uuid (MediaInteraction_rows d)) (uuid i),
       not_null ''interactionType'' (interactionType i),
       varchar 50 ''interactionType'' (interactionType i),
       not_null ''timestamp'' (timestamp i),
       references d MediaInteraction_user (media_interaction.user i),
       references d MediaInteraction_music (music i),
       references d MediaInteraction_photo (photo i),
       references d MediaInteraction_video (video i),
       references d MediaInteraction_playlist (playlist i) ]"

definition insert_MediaInteraction ::
  "string \<Rightarrow> date \<Rightarrow> db \<Rightarrow> media_interaction \<Rightarrow> db_error + db" where
  "insert_MediaInteraction key now d i =
     (let row = i\<lparr> uuid := Some key, createdAt := Some now, updatedAt := Some now \<rparr>
      in case first_error (MediaInteraction_checks d row) of
           Some e \<Rightarrow> Inl e
         | None \<Rightarrow> Inr (d\<lparr> MediaInteraction_rows := MediaInteraction_rows d @ [row] \<rparr>))"

subsection \<open>Notifications\<close>

definition Notification_defaults :: "notification \<Rightarrow> notification" where
  "Notification_defaults n =
     n\<lparr> notification.channel :=
          (case notification.channel n of None \<Rightarrow> Some ''WhatsApp'' | Some c \<Rightarrow> Some c),
        status := (case status n of None \<Rightarrow> Some ''pending'' | Some s \<Rightarrow> Some s) \<rparr>"

text \<open>The \<^verbatim>\<open>bytea\<close> column \<^verbatim>\<open>message\<close> is not nullable.\<close>

definition message_not_null :: "js_value \<Rightarrow> db_error option" where
  "message_not_null m =
     (case m of Undefined \<Rightarrow> Some (NotNullViolation ''message'')
      | Null \<Rightarrow> Some (NotNullViolation ''message'')
      | JSString s \<Rightarrow> None
      | JSBuffer b \<Rightarrow> None)"

definition Notification_checks :: "db \<Rightarrow> notification \<Rightarrow> db_error option list" where
  "Notification_checks d n =
     [ references d Notification_studio (studio n),
       references d Notification_user (notification.user n),
       not_null ''channel'' (notification.channel n),
       enum [''email'', ''SMS'', ''WhatsApp''] ''channel'' (notification.channel n),
       message_not_null (message n),
       not_null ''status'' (status n),
       enum [''pending'', ''sent'', ''failed''] ''status'' (status n),
       not_null ''sendAt'' (sendAt n),
       varchar 255 ''subject'' (subject n) ]"

text \<open>
  Creating a notification. \<^verbatim>\<open>@BeforeInsert\<close>: the hook runs first, on the entity; what it
  leaves in the entity is what the store receives. The hook has no way to stop the write:
  it returns normally in every branch.
\<close>

definition insert_Notification ::
  "zlib \<Rightarrow> string \<Rightarrow> date \<Rightarrow> db \<Rightarrow> notification \<Rightarrow> (db_error + db) \<times> console" where
  "insert_Notification z key now d n =
     (case compressMessage z n of
        (hooked, out) \<Rightarrow>
          let row = Notification_defaults (hooked\<lparr> uuid := Some key, createdAt := Some now,
                                                    updatedAt := Some now \<rparr>)
          in case first_error (unique_among ''uuid'' (map uuid (Notification_rows d)) (uuid row)
                               # Notification_checks d row) of
               Some e \<Rightarrow> (Inl e, out)
             | None \<Rightarrow> (Inr (d\<lparr> Notification_rows := Notification_rows d @ [row] \<rparr>), out))"

text \<open>
  Updating the notification with the entity's key. \<^verbatim>\<open>@BeforeUpdate\<close>: the same hook runs
  first, whatever the update changes.
\<close>

definition update_Notification ::
  "zlib \<Rightarrow> date \<Rightarrow> db \<Rightarrow> notification \<Rightarrow> (db_error + db) \<times> console" where
  "update_Notification z now d n =
     (case compressMessage z n of
        (hooked, out) \<Rightarrow>
          let row = hooked\<lparr> updatedAt := Some now \<rparr>
          in case first_error (Notification_checks d row) of
               Some e \<Rightarrow> (Inl e, out)
             | None \<Rightarrow>
                 (Inr (d\<lparr> Notification_rows :=
                            map (\<lambda>r. if uuid r = uuid row then row else r)
                                (Notification_rows d) \<rparr>), out))"

text \<open>Loading the notification with a key.\<close>

definition find_Notification :: "db \<Rightarrow> string \<Rightarrow> notification option" where
  "find_Notification d key = find (\<lambda>r. uuid r = Some key) (Notification_rows d)"

definition empty_db :: db where
  "empty_db = \<lparr> User_rows = [], Device_keys = [], Studio_keys = [], Playlist_keys = [],
                Music_keys = [], Photo_keys = [], Video_keys = [],
                MediaInteraction_rows = [], Notification_rows = [] \<rparr>"

section \<open>Histories of the store\<close>

text \<open>
  The writes the entities give rise to. A write that the store rejects leaves it as it was.
  A history is a sequence of writes applied to the empty store.
\<close>

datatype store_write =
    Insert_User string date user
  | Update_User date user
  | Insert_MediaInteraction string date media_interaction
  | Insert_Notification zlib string date notification
  | Update_Notification zlib date notification

fun perform :: "db \<Rightarrow> store_write \<Rightarrow> db" where
  "perform d (Insert_User key now u) =
     (case insert_User key now d u of Inl e \<Rightarrow> d | Inr d' \<Rightarrow> d')"
| "perform d (Update_User now u) =
     (case update_User now d u of Inl e \<Rightarrow> d | Inr d' \<Rightarrow> d')"
| "perform d (Insert_MediaInteraction key now i) =
     (case insert_MediaInteraction key now d i of Inl e \<Rightarrow> d | Inr d' \<Rightarrow> d')"
| "perform d (Insert_Notification z key now n) =
     (case fst (insert_Notification z key now d n) of Inl e \<Rightarrow> d | Inr d' \<Rightarrow> d')"
| "perform d (Update_Notification z now n) =
     (case fst (update_Notification z now d n) of Inl e \<Rightarrow> d | Inr d' \<Rightarrow> d')"

definition history :: "store_write list \<Rightarrow> db" where
  "history ws = foldl perform empty_db ws"

text \<open>What holds of the user table in every history.\<close>

definition User_rows_ok :: "user list \<Rightarrow> bool" where
  "User_rows_ok rows \<longleftrightarrow>
     distinct (map uuid rows) \<and> None \<notin> set (map email rows)
     \<and> distinct (List.map_filter email rows) \<and> distinct (List.map_filter phoneNumber rows)"

section \<open>Sample values\<close>

text \<open>A notification as a caller builds it before the first save; its message is "Hi".\<close>

definition sample_Notification :: notification where
  "sample_Notification =
     \<lparr> uuid = None, createdAt = None, updatedAt = None, studio = None, user = None,
       channel = Some ''email'', message = JSBuffer [0x48, 0x69], status = None,
       sendAt = Some 1700000000, deliveredAt = None, errorLog = None, subject = None \<rparr>"

text \<open>The same notification with the empty string as its message.\<close>

definition sample_empty_message :: notification where
  "sample_empty_message = sample_Notification\<lparr> message := JSString [] \<rparr>"

text \<open>
  The row of that notification once created under the key \<open>n1\<close>, with \<open>m\<close> in its message
  column, and a store that holds one notification row and nothing else.
\<close>

definition sample_stored :: "js_value \<Rightarrow> notification" where
  "sample_stored m =
     \<lparr> uuid = Some ''n1'', createdAt = Some 1700000000, updatedAt = Some 1700000000,
       studio = None, user = None, channel = Some ''email'', message = m,
       status = Some ''pending'', sendAt = Some 1700000000, deliveredAt = None,
       errorLog = None, subject = None \<rparr>"

definition sample_db :: "notification \<Rightarrow> db" where
  "sample_db row = empty_db\<lparr> Notification_rows := [row] \<rparr>"

text \<open>
  The zlib stream of "Hi" (one stored block), the string that \<^verbatim>\<open>toString("utf-8")\<close> reads
  from that stream, and the zlib stream of that string's bytes.
\<close>

definition compressed_Hi :: bytes where
  "compressed_Hi =
     [0x78, 0x01, 0x01, 0x02, 0x00, 0xFD, 0xFF, 0x48, 0x69, 0x00, 0xFB, 0x00, 0xB2]"

definition garbled_Hi :: js_string where
  "garbled_Hi = [120, 1, 1, 2, 0, 0xFFFD, 0xFFFD, 72, 105, 0, 0xFFFD, 0, 0xFFFD]"

definition recompressed_Hi :: bytes where
  "recompressed_Hi =
     [0x78, 0x01, 0x01, 0x15, 0x00, 0xEA, 0xFF,
      0x78, 0x01, 0x01, 0x02, 0x00, 0xEF, 0xBF, 0xBD, 0xEF, 0xBF, 0xBD, 0x48, 0x69, 0x00,
      0xEF, 0xBF, 0xBD, 0x00, 0xEF, 0xBF, 0xBD,
      0x66, 0x22, 0x0A, 0xDA]"

text \<open>The stored row of the sample after its delivery was recorded.\<close>

definition sample_sent :: notification where
  "sample_sent =
     (sample_stored (JSBuffer compressed_Hi))
       \<lparr> status := Some ''sent'', deliveredAt := Some 1700000060,
         updatedAt := Some 1700000060 \<rparr>"

text \<open>A user as a caller builds it, and its row once created under the key \<open>u1\<close>.\<close>

definition sample_User :: user where
  "sample_User =
     \<lparr> uuid = None, createdAt = None, updatedAt = None,
       accountType = Some ''WATCHER'', channel = Some ''WEB'', phoneNumber = None,
       secondaryPhoneNumber = None, email = Some ''a@x.com'', secondaryEmail = None,
       validatedPhoneNumber = None, validatedEmail = None, pin = Some ''1234'',
       password_hash = Some ''$2b$10$hash'', dateOfBirth = None \<rparr>"

definition sample_User_row :: user where
  "sample_User_row =
     sample_User\<lparr> uuid := Some ''u1'', createdAt := Some 1700000000,
                   updatedAt := Some 1700000000, validatedPhoneNumber := Some False,
                   validatedEmail := Some False \<rparr>"

text \<open>A store with that user, one playlist, one music track, one photo and one video.\<close>

definition sample_media_db :: db where
  "sample_media_db =
     empty_db\<lparr> User_rows := [sample_User_row], Playlist_keys := [''pl1''],
               Music_keys := [''m1''], Photo_keys := [''p1''], Video_keys := [''v1''] \<rparr>"

text \<open>An interaction of that user that names both the music track and the photo.\<close>

definition sample_interaction :: media_interaction where
  "sample_interaction =
     \<lparr> uuid = None, createdAt = None, updatedAt = None,
       interactionType = Some ''WATCHED'', timestamp = Some 1700000000,
       user = Some ''u1'', music = Some ''m1'', photo = Some ''p1'', video = None,
       playlist = None \<rparr>"

section \<open>UTF-8: decoding what was encoded\<close>

lemma unat_byte_of: "n < 256 \<Longrightarrow> unat (byte_of n) = n"
  unfolding byte_of_def by (rule of_nat_inverse) simp_all

lemma div4096: "(cp::nat) div 4096 = cp div 64 div 64"
  using div_mult2_eq[of cp 64 64] by simp

lemma div262144: "(cp::nat) div 262144 = cp div 64 div 64 div 64"
  using div_mult2_eq[of cp 64 4096] div_mult2_eq[of "cp div 64" 64 64] by simp

lemma cont_payload: "(0x80 + y) mod 64 = (y mod 64 :: nat)"
  using mod_mult_self3[of 2 64 y] by simp

lemma lead2_payload: "q < 32 \<Longrightarrow> (0xC0 + q) mod 32 = (q::nat)"
  using mod_mult_self3[of 6 32 q] by simp

lemma lead3_payload: "q < 16 \<Longrightarrow> (0xE0 + q) mod 16 = (q::nat)"
  using mod_mult_self3[of 14 16 q] by simp

lemma lead4_payload: "q < 8 \<Longrightarrow> (0xF0 + q) mod 8 = (q::nat)"
  using mod_mult_self3[of 30 8 q] by simp

lemma mod64_le: "(n::nat) mod 64 \<le> 63"
  using mod_less_divisor[of 64 n] by linarith

lemma two_byte_bounds:
  fixes cp :: nat
  assumes "0x80 \<le> cp" "cp < 0x800"
  shows "2 \<le> cp div 64" and "cp div 64 \<le> 31"
  using assms by simp_all

lemma three_byte_bounds:
  fixes cp :: nat
  assumes "0x800 \<le> cp" "cp < 0x10000" "\<not> (0xD800 \<le> cp \<and> cp \<le> 0xDFFF)"
  shows "cp div 4096 \<le> 15"
    and "cp div 4096 = 0 \<Longrightarrow> 32 \<le> cp div 64 mod 64"
    and "cp div 4096 = 13 \<Longrightarrow> cp div 64 mod 64 \<le> 31"
proof -
  define a r b s where "a = cp div 64" and "r = cp mod 64" and "b = a div 64" and "s = a mod 64"
  have 1: "cp = a * 64 + r" "r < 64" "a = b * 64 + s" "s < 64"
    by (simp_all add: a_def r_def b_def s_def)
  have b: "cp div 4096 = b" "cp div 64 mod 64 = s"
    by (simp_all add: div4096 a_def b_def s_def)
  show "cp div 4096 \<le> 15" unfolding b using 1 assms(2) by linarith
  show "32 \<le> cp div 64 mod 64" if "cp div 4096 = 0"
    using that unfolding b using 1 assms(1) by linarith
  show "cp div 64 mod 64 \<le> 31" if "cp div 4096 = 13"
    using that unfolding b using 1 assms by linarith
qed

lemma four_byte_bounds:
  fixes cp :: nat
  assumes "0x10000 \<le> cp" "cp < 0x110000"
  shows "cp div 262144 \<le> 4"
    and "cp div 262144 = 0 \<Longrightarrow> 16 \<le> cp div 4096 mod 64"
    and "cp div 262144 = 4 \<Longrightarrow> cp div 4096 mod 64 \<le> 15"
proof -
  define a r b s c t where "a = cp div 64" and "r = cp mod 64" and "b = a div 64"
    and "s = a mod 64" and "c = b div 64" and "t = b mod 64"
  have 1: "cp = a * 64 + r" "r < 64" "a = b * 64 + s" "s < 64" "b = c * 64 + t" "t < 64"
    by (simp_all add: a_def r_def b_def s_def c_def t_def)
  have b: "cp div 262144 = c" "cp div 4096 mod 64 = t"
    by (simp_all add: div4096 div262144 a_def b_def c_def t_def)
  show "cp div 262144 \<le> 4" unfolding b using 1 assms(2) by linarith
  show "16 \<le> cp div 4096 mod 64" if "cp div 262144 = 0"
    using that unfolding b using 1 assms(1) by linarith
  show "cp div 4096 mod 64 \<le> 15" if "cp div 262144 = 4"
    using that unfolding b using 1 assms by linarith
qed

lemma join3: "(cp div 4096 * 64 + cp div 64 mod 64) * 64 + cp mod 64 = (cp::nat)"
  by (simp add: div4096)

lemma join4:
  "((cp div 262144 * 64 + cp div 4096 mod 64) * 64 + cp div 64 mod 64) * 64 + cp mod 64
     = (cp::nat)"
  by (simp add: div4096 div262144)

lemma dec_ascii:
  "unat b \<le> 0x7F \<Longrightarrow>
   utf8_decode_from 0 0 0x80 0xBF (b # bs) = unat b # utf8_decode_from 0 0 0x80 0xBF bs"
  by simp

lemma dec_lead2:
  "0xC2 \<le> unat b \<Longrightarrow> unat b \<le> 0xDF \<Longrightarrow>
   utf8_decode_from 0 0 0x80 0xBF (b # bs) =
     utf8_decode_from (unat b mod 32) (Suc 0) 0x80 0xBF bs"
  by simp

lemma dec_lead3:
  "0xE0 \<le> unat b \<Longrightarrow> unat b \<le> 0xEF \<Longrightarrow>
   utf8_decode_from 0 0 0x80 0xBF (b # bs) =
     utf8_decode_from (unat b mod 16) 2
       (if unat b = 0xE0 then 0xA0 else 0x80) (if unat b = 0xED then 0x9F else 0xBF) bs"
  by simp

lemma dec_lead4:
  "0xF0 \<le> unat b \<Longrightarrow> unat b \<le> 0xF4 \<Longrightarrow>
   utf8_decode_from 0 0 0x80 0xBF (b # bs) =
     utf8_decode_from (unat b mod 8) 3
       (if unat b = 0xF0 then 0x90 else 0x80) (if unat b = 0xF4 then 0x8F else 0xBF) bs"
  by simp

lemma dec_last:
  "lo \<le> unat b \<Longrightarrow> unat b \<le> hi \<Longrightarrow>
   utf8_decode_from cp (Suc 0) lo hi (b # bs) =
     (cp * 64 + unat b mod 64) # utf8_decode_from 0 0 0x80 0xBF bs"
  by simp

lemma dec_cont2:
  "lo \<le> unat b \<Longrightarrow> unat b \<le> hi \<Longrightarrow>
   utf8_decode_from cp 2 lo hi (b # bs) =
     utf8_decode_from (cp * 64 + unat b mod 64) (Suc 0) 0x80 0xBF bs"
  by simp

lemma dec_cont3:
  "lo \<le> unat b \<Longrightarrow> unat b \<le> hi \<Longrightarrow>
   utf8_decode_from cp 3 lo hi (b # bs) =
     utf8_decode_from (cp * 64 + unat b mod 64) 2 0x80 0xBF bs"
  by simp

lemma dec2:
  assumes "0xC2 \<le> unat b0" "unat b0 \<le> 0xDF" "0x80 \<le> unat b1" "unat b1 \<le> 0xBF"
  shows "utf8_decode_from 0 0 0x80 0xBF (b0 # b1 # rest) =
           (unat b0 mod 32 * 64 + unat b1 mod 64) # utf8_decode_from 0 0 0x80 0xBF rest"
  by (simp only: dec_lead2[OF assms(1,2)] dec_last[OF assms(3,4)])

lemma dec3:
  assumes "0xE0 \<le> unat b0" "unat b0 \<le> 0xEF"
    and "(if unat b0 = 0xE0 then 0xA0 else 0x80) \<le> unat b1"
    and "unat b1 \<le> (if unat b0 = 0xED then 0x9F else 0xBF)"
    and "0x80 \<le> unat b2" "unat b2 \<le> 0xBF"
  shows "utf8_decode_from 0 0 0x80 0xBF (b0 # b1 # b2 # rest) =
           ((unat b0 mod 16 * 64 + unat b1 mod 64) * 64 + unat b2 mod 64)
             # utf8_decode_from 0 0 0x80 0xBF rest"
  by (simp only: dec_lead3[OF assms(1,2)] dec_cont2[OF assms(3,4)] dec_last[OF assms(5,6)])

lemma dec4:
  assumes "0xF0 \<le> unat b0" "unat b0 \<le> 0xF4"
    and "(if unat b0 = 0xF0 then 0x90 else 0x80) \<le> unat b1"
    and "unat b1 \<le> (if unat b0 = 0xF4 then 0x8F else 0xBF)"
    and "0x80 \<le> unat b2" "unat b2 \<le> 0xBF"
    and "0x80 \<le> unat b3" "unat b3 \<le> 0xBF"
  shows "utf8_decode_from 0 0 0x80 0xBF (b0 # b1 # b2 # b3 # rest) =
           (((unat b0 mod 8 * 64 + unat b1 mod 64) * 64 + unat b2 mod 64) * 64 + unat b3 mod 64)
             # utf8_decode_from 0 0 0x80 0xBF rest"
  by (simp only: dec_lead4[OF assms(1,2)] dec_cont3[OF assms(3,4)] dec_cont2[OF assms(5,6)]
        dec_last[OF assms(7,8)])

lemma decode_encode_cp:
  assumes "scalar cp"
  shows "utf8_decode_from 0 0 0x80 0xBF (utf8_encode_cp cp @ rest)
           = cp # utf8_decode_from 0 0 0x80 0xBF rest"
proof -
  consider (a) "cp < 0x80" | (b) "0x80 \<le> cp" "cp < 0x800"
    | (c) "0x800 \<le> cp" "cp < 0x10000" "\<not> (0xD800 \<le> cp \<and> cp \<le> 0xDFFF)"
    | (d) "0x10000 \<le> cp" "cp < 0x110000"
    using assms unfolding scalar_def by linarith
  then show ?thesis
  proof cases
    case a
    then show ?thesis by (simp add: utf8_encode_cp_def unat_byte_of)
  next
    case b
    note r = two_byte_bounds[OF b]
    define b0 b1 where "b0 = byte_of (0xC0 + cp div 64)" and "b1 = byte_of (0x80 + cp mod 64)"
    have 1: "unat b0 = 0xC0 + cp div 64"
      unfolding b0_def using r by (intro unat_byte_of) simp
    have 2: "unat b1 = 0x80 + cp mod 64"
      unfolding b1_def by (intro unat_byte_of) simp
    have e: "utf8_encode_cp cp @ rest = b0 # b1 # rest"
      using b by (simp add: utf8_encode_cp_def b0_def b1_def)
    have "cp div 64 < 32" using r by simp
    then have v: "unat b0 mod 32 * 64 + unat b1 mod 64 = cp"
      by (simp only: 1 2 lead2_payload cont_payload mod_mod_trivial div_mult_mod_eq)
    have "utf8_decode_from 0 0 0x80 0xBF (b0 # b1 # rest) =
           (unat b0 mod 32 * 64 + unat b1 mod 64) # utf8_decode_from 0 0 0x80 0xBF rest"
    proof (intro dec2)
      have m: "cp mod 64 \<le> 63" by (rule mod64_le)
      show "0xC2 \<le> unat b0" "unat b0 \<le> 0xDF" using r by (simp_all add: 1)
      show "0x80 \<le> unat b1" "unat b1 \<le> 0xBF" using m by (simp_all add: 2)
    qed
    then show ?thesis by (simp only: e v)
  next
    case c
    note r = three_byte_bounds[OF c]
    define b0 b1 b2 where "b0 = byte_of (0xE0 + cp div 4096)"
      and "b1 = byte_of (0x80 + cp div 64 mod 64)" and "b2 = byte_of (0x80 + cp mod 64)"
    have 1: "unat b0 = 0xE0 + cp div 4096"
      unfolding b0_def using r(1) by (intro unat_byte_of) simp
    have 2: "unat b1 = 0x80 + cp div 64 mod 64"
      unfolding b1_def by (intro unat_byte_of) simp
    have 3: "unat b2 = 0x80 + cp mod 64"
      unfolding b2_def by (intro unat_byte_of) simp
    have e: "utf8_encode_cp cp @ rest = b0 # b1 # b2 # rest"
      using c by (auto simp add: utf8_encode_cp_def b0_def b1_def b2_def)
    have "cp div 4096 < 16" using r(1) by simp
    then have v: "(unat b0 mod 16 * 64 + unat b1 mod 64) * 64 + unat b2 mod 64 = cp"
      by (simp only: 1 2 3 lead3_payload cont_payload mod_mod_trivial join3)
    have "utf8_decode_from 0 0 0x80 0xBF (b0 # b1 # b2 # rest) =
           ((unat b0 mod 16 * 64 + unat b1 mod 64) * 64 + unat b2 mod 64)
             # utf8_decode_from 0 0 0x80 0xBF rest"
    proof (intro dec3)
      have m: "cp div 64 mod 64 \<le> 63" "cp mod 64 \<le> 63" by (rule mod64_le)+
      show "0xE0 \<le> unat b0" "unat b0 \<le> 0xEF" using r(1) by (simp_all add: 1)
      show "(if unat b0 = 0xE0 then 0xA0 else 0x80) \<le> unat b1"
        using r(2) by (simp add: 1 2)
      show "unat b1 \<le> (if unat b0 = 0xED then 0x9F else 0xBF)"
        using r(3) m(1) by (simp add: 1 2)
      show "0x80 \<le> unat b2" "unat b2 \<le> 0xBF" using m(2) by (simp_all add: 3)
    qed
    then show ?thesis by (simp only: e v)
  next
    case d
    note r = four_byte_bounds[OF d]
    define b0 b1 b2 b3 where "b0 = byte_of (0xF0 + cp div 262144)"
      and "b1 = byte_of (0x80 + cp div 4096 mod 64)"
      and "b2 = byte_of (0x80 + cp div 64 mod 64)" and "b3 = byte_of (0x80 + cp mod 64)"
    have 1: "unat b0 = 0xF0 + cp div 262144"
      unfolding b0_def using r(1) by (intro unat_byte_of) simp
    have 2: "unat b1 = 0x80 + cp div 4096 mod 64"
      unfolding b1_def by (intro unat_byte_of) simp
    have 3: "unat b2 = 0x80 + cp div 64 mod 64"
      unfolding b2_def by (intro unat_byte_of) simp
    have 4: "unat b3 = 0x80 + cp mod 64"
      unfolding b3_def by (intro unat_byte_of) simp
    have e: "utf8_encode_cp cp @ rest = b0 # b1 # b2 # b3 # rest"
      using d by (simp add: utf8_encode_cp_def b0_def b1_def b2_def b3_def)
    have "cp div 262144 < 8" using r(1) by simp
    then have v: "((unat b0 mod 8 * 64 + unat b1 mod 64) * 64 + unat b2 mod 64) * 64
                    + unat b3 mod 64 = cp"
      by (simp only: 1 2 3 4 lead4_payload cont_payload mod_mod_trivial join4)
    have "utf8_decode_from 0 0 0x80 0xBF (b0 # b1 # b2 # b3 # rest) =
           (((unat b0 mod 8 * 64 + unat b1 mod 64) * 64 + unat b2 mod 64) * 64 + unat b3 mod 64)
             # utf8_decode_from 0 0 0x80 0xBF rest"
    proof (intro dec4)
      have m: "cp div 4096 mod 64 \<le> 63" "cp div 64 mod 64 \<le> 63" "cp mod 64 \<le> 63"
        by (rule mod64_le)+
      show "0xF0 \<le> unat b0" "unat b0 \<le> 0xF4" using r(1) by (simp_all add: 1)
      show "(if unat b0 = 0xF0 then 0x90 else 0x80) \<le> unat b1"
        using r(2) by (simp add: 1 2)
      show "unat b1 \<le> (if unat b0 = 0xF4 then 0x8F else 0xBF)"
        using r(3) m(1) by (simp add: 1 2)
      show "0x80 \<le> unat b2" "unat b2 \<le> 0xBF" using m(2) by (simp_all add: 3)
      show "0x80 \<le> unat b3" "unat b3 \<le> 0xBF" using m(3) by (simp_all add: 4)
    qed
    then show ?thesis by (simp only: e v)
  qed
qed

lemma decode_encode: "list_all scalar s \<Longrightarrow> utf8_decode (utf8_encode s) = s"
  unfolding utf8_decode_def utf8_encode_def
  by (induction s) (simp_all add: decode_encode_cp del: utf8_decode_from.simps(2))

section \<open>The stored-block instance inverts itself\<close>

lemma unat_le16:
  assumes "n \<le> 65535"
  shows "le16 n = [l0, l1] \<Longrightarrow> unat l0 + 256 * unat l1 = n"
proof -
  assume e: "le16 n = [l0, l1]"
  have d: "n div 256 < 256" using assms by simp
  have "l0 = byte_of (n mod 256)" "l1 = byte_of (n div 256 mod 256)"
    using e by (simp_all add: le16_def)
  then have "unat l0 = n mod 256" "unat l1 = n div 256"
    using d by (simp_all add: unat_byte_of)
  then show ?thesis by simp
qed

lemma le16_shape: "\<exists>l0 l1. le16 n = [l0, l1]"
  by (simp add: le16_def)

lemma inflate_stored_final:
  assumes "length bs \<le> 65535"
  shows "inflate_stored acc ([0x01] @ le16 (length bs) @ le16 (65535 - length bs) @ bs @ tr)
           = Inr (acc @ bs, tr)"
proof -
  obtain l0 l1 where l: "le16 (length bs) = [l0, l1]" using le16_shape by blast
  obtain n0 n1 where n: "le16 (65535 - length bs) = [n0, n1]" using le16_shape by blast
  have L: "unat l0 + 256 * unat l1 = length bs" using unat_le16[OF assms l] .
  have N: "unat n0 + 256 * unat n1 = 65535 - length bs"
    using unat_le16[OF _ n] by simp
  show ?thesis
    unfolding l n using assms by (simp add: L N Let_def)
qed

lemma inflate_stored_more:
  assumes "65535 < length bs"
  shows "inflate_stored acc ([0x00] @ le16 65535 @ le16 0 @ take 65535 bs @ rest)
           = inflate_stored (acc @ take 65535 bs) rest"
proof -
  have l: "le16 65535 = [0xFF, 0xFF]" "le16 0 = [0, 0]"
    by (simp_all add: le16_def byte_of_def)
  show ?thesis
    unfolding l using assms by (simp add: Let_def)
qed

lemma inflate_stored_blocks:
  "inflate_stored acc (stored_blocks bs @ tr) = Inr (acc @ bs, tr)"
proof (induction bs arbitrary: acc rule: stored_blocks.induct)
  case (1 bs)
  show ?case
  proof (cases "length bs \<le> 65535")
    case True
    then have "stored_blocks bs = [0x01] @ le16 (length bs) @ le16 (65535 - length bs) @ bs"
      by (subst stored_blocks.simps) simp
    then show ?thesis using inflate_stored_final[OF True, of acc tr] by simp
  next
    case False
    then have long: "65535 < length bs" by simp
    have "stored_blocks bs =
            [0x00] @ le16 65535 @ le16 0 @ take 65535 bs @ stored_blocks (drop 65535 bs)"
      using False by (subst stored_blocks.simps) simp
    then have "inflate_stored acc (stored_blocks bs @ tr)
        = inflate_stored acc ([0x00] @ le16 65535 @ le16 0 @ take 65535 bs
                                @ (stored_blocks (drop 65535 bs) @ tr))"
      by simp
    also have "\<dots> = inflate_stored (acc @ take 65535 bs) (stored_blocks (drop 65535 bs) @ tr)"
      by (rule inflate_stored_more[OF long])
    also have "\<dots> = Inr ((acc @ take 65535 bs) @ drop 65535 bs, tr)"
      using "1.IH"[OF False] .
    finally show ?thesis by simp
  qed
qed

lemma length_be32: "length (be32 n) = 4"
  by (simp add: be32_def)

lemma stored_unzip_deflate:
  assumes "stored_deflate limit bs = Inr c"
  shows "stored_unzip c = Inr bs"
proof -
  have c: "c = 0x78 # 0x01 # (stored_blocks bs @ be32 (adler32 bs))"
    using assms by (simp add: stored_deflate_def Let_def split: if_splits)
  have i: "inflate_stored [] (stored_blocks bs @ be32 (adler32 bs)) = Inr (bs, be32 (adler32 bs))"
    using inflate_stored_blocks[of "[]" bs "be32 (adler32 bs)"] by simp
  show ?thesis
    unfolding c stored_unzip_def by (simp add: i length_be32 del: inflate_stored.simps)
qed

section \<open>Notification: the hook and the getter\<close>

lemma utf8_encode_Hi: "utf8_encode [72, 105] = [0x48, 0x69]"
  by (simp add: utf8_encode_def utf8_encode_cp_def byte_of_def)

lemma stored_deflate_Hi:
  "stored_deflate 100 [0x48, 0x69] =
     Inr [0x78, 0x01, 0x01, 0x02, 0x00, 0xFD, 0xFF, 0x48, 0x69, 0x00, 0xFB, 0x00, 0xB2]"
  by (simp add: stored_deflate_def stored_blocks.simps adler32_def be32_def le16_def byte_of_def)

lemma stored_unzip_raw_Hi: "stored_unzip [0x48, 0x69] = Inl Z_DATA_ERROR"
  by (simp add: stored_unzip_def)

lemma hook_then_read:
  assumes "message n = JSBuffer b"
    and "deflate z (utf8_encode (utf8_decode b)) = Inr c"
    and "unzip z c = Inr d"
  shows "getMessage z (fst (compressMessage z n)) = (Inr (utf8_decode d), [])"
  using assms by (simp add: compressMessage_def getMessage_def deflateAsync_def unzipAsync_def)

lemma utf8_decode_FF: "utf8_decode [0xFF] = [0xFFFD]"
  by (simp add: utf8_decode_def)

lemma utf8_encode_FFFD: "utf8_encode [0xFFFD] = [0xEF, 0xBF, 0xBD]"
  by (simp add: utf8_encode_def utf8_encode_cp_def byte_of_def)

lemma utf8_decode_EFBFBD: "utf8_decode [0xEF, 0xBF, 0xBD] = [0xFFFD]"
  by (simp add: utf8_decode_def)

lemma stored_deflate_EFBFBD:
  "stored_deflate 100 [0xEF, 0xBF, 0xBD] =
     Inr [0x78, 0x01, 0x01, 0x03, 0x00, 0xFC, 0xFF, 0xEF, 0xBF, 0xBD, 0x05, 0x0B, 0x02, 0x6C]"
  by (simp add: stored_deflate_def stored_blocks.simps adler32_def be32_def le16_def byte_of_def)

section \<open>Notification: what a write stores\<close>

lemma first_error_None_iff: "first_error cs = None \<longleftrightarrow> (\<forall>c \<in> set cs. c = None)"
  by (induction cs rule: first_error.induct) auto

lemma unique_among_None_iff:
  "unique_among c others (Some k) = None \<longleftrightarrow> Some k \<notin> set others"
  by (simp add: unique_among_def)

lemma find_append_fresh:
  "\<forall>r \<in> set rows. \<not> P r \<Longrightarrow> P row \<Longrightarrow> find P (rows @ [row]) = Some row"
  by (induction rows) auto

lemma find_replace:
  "find (\<lambda>r. uuid r = Some key) rows = Some old \<Longrightarrow> uuid row = Some key \<Longrightarrow>
   find (\<lambda>r. uuid r = Some key) (map (\<lambda>r. if uuid r = uuid row then row else r) rows) = Some row"
  by (induction rows) (auto split: if_splits)

lemma insert_Notification_stores:
  assumes "fst (insert_Notification z key now d n) = Inr d'"
  shows "find_Notification d' key =
           Some (Notification_defaults ((fst (compressMessage z n))
                   \<lparr> uuid := Some key, createdAt := Some now, updatedAt := Some now \<rparr>))"
proof -
  obtain hooked out where h: "compressMessage z n = (hooked, out)" by (cases "compressMessage z n")
  let ?row = "Notification_defaults (hooked\<lparr> uuid := Some key, createdAt := Some now,
                                              updatedAt := Some now \<rparr>)"
  have u: "uuid ?row = Some key" by (simp add: Notification_defaults_def)
  from assms have ok: "first_error (unique_among ''uuid'' (map uuid (Notification_rows d)) (uuid ?row)
                               # Notification_checks d ?row) = None"
    and d': "d' = d\<lparr> Notification_rows := Notification_rows d @ [?row] \<rparr>"
    by (auto simp add: insert_Notification_def h Let_def split: option.splits)
  from ok have "unique_among ''uuid'' (map uuid (Notification_rows d)) (Some key) = None"
    by (simp add: first_error_None_iff u)
  then have fresh: "\<forall>r \<in> set (Notification_rows d). \<not> uuid r = Some key"
    by (force simp add: unique_among_None_iff)
  show ?thesis
    unfolding find_Notification_def d' using find_append_fresh[OF fresh u] by (simp add: h)
qed

lemma update_Notification_stores:
  assumes "fst (update_Notification z now d n) = Inr d'"
    and "uuid n = Some key" and "find_Notification d key = Some old"
  shows "find_Notification d' key = Some ((fst (compressMessage z n))\<lparr> updatedAt := Some now \<rparr>)"
proof -
  obtain hooked out where h: "compressMessage z n = (hooked, out)" by (cases "compressMessage z n")
  have hu: "uuid hooked = uuid n"
    using h by (auto simp add: compressMessage_def split: if_splits sum.splits)
  let ?row = "hooked\<lparr> updatedAt := Some now \<rparr>"
  have u: "uuid ?row = Some key" using hu assms(2) by simp
  from assms(1) have d': "d' = d\<lparr> Notification_rows :=
                            map (\<lambda>r. if uuid r = uuid ?row then ?row else r)
                                (Notification_rows d) \<rparr>"
    by (auto simp add: update_Notification_def h Let_def split: option.splits)
  show ?thesis
    unfolding d' using find_replace[OF assms(3)[unfolded find_Notification_def] u]
    by (simp add: find_Notification_def h)
qed

lemma message_Notification_defaults [simp]: "message (Notification_defaults n) = message n"
  by (simp add: Notification_defaults_def)

lemma compressMessage_uuid: "uuid (fst (compressMessage z n)) = uuid n"
  by (auto simp add: compressMessage_def split: sum.splits)

lemma insert_sample:
  assumes "compressMessage z (sample_Notification\<lparr>message := m\<rparr>)
             = (sample_Notification\<lparr>message := m'\<rparr>, out)"
    and "message_not_null m' = None"
  shows "insert_Notification z ''n1'' 1700000000 empty_db (sample_Notification\<lparr>message := m\<rparr>)
           = (Inr (sample_db (sample_stored m')), out)"
  using assms
  by (simp add: insert_Notification_def sample_Notification_def Notification_defaults_def
      Notification_checks_def references_def Notification_studio_def Notification_user_def
      unique_among_def not_null_def enum_def varchar_def empty_db_def sample_db_def
      sample_stored_def)

lemma find_sample_db: "uuid row = Some key \<Longrightarrow> find_Notification (sample_db row) key = Some row"
  by (simp add: find_Notification_def sample_db_def)

lemma update_sample:
  assumes "compressMessage z n = (n', out)"
    and "uuid n = uuid old"
    and "first_error (Notification_checks (sample_db old) (n'\<lparr> updatedAt := Some t \<rparr>)) = None"
  shows "update_Notification z t (sample_db old) n
           = (Inr (sample_db (n'\<lparr> updatedAt := Some t \<rparr>)), out)"
proof -
  have "uuid n' = uuid old" using compressMessage_uuid[of z n] assms(1,2) by simp
  then show ?thesis
    using assms(1,3) by (simp add: update_Notification_def sample_db_def empty_db_def)
qed

lemma sample_checks:
  "message_not_null m = None \<Longrightarrow> s \<in> {''pending'', ''sent'', ''failed''} \<Longrightarrow>
   first_error (Notification_checks (sample_db old)
      ((sample_stored m)\<lparr> status := Some s, deliveredAt := dl, errorLog := el,
                           updatedAt := Some t \<rparr>)) = None"
  by (auto simp add: Notification_checks_def references_def Notification_studio_def
      Notification_user_def not_null_def enum_def varchar_def sample_stored_def)

lemma stored_deflate_small_limit: "limit \<le> 10 \<Longrightarrow> stored_deflate limit bs = Inl ERR_BUFFER_TOO_LARGE"
proof -
  assume l: "limit \<le> 10"
  have "5 \<le> length (stored_blocks bs)"
    by (subst stored_blocks.simps) (simp add: le16_def)
  then have "limit < length ([0x78, 0x01] @ stored_blocks bs @ be32 (adler32 bs))"
    using l by (simp add: length_be32)
  then show ?thesis by (simp add: stored_deflate_def Let_def)
qed

lemma deflate_Hi: "deflate (stored_zlib 100) (utf8_encode [72, 105]) = Inr compressed_Hi"
  by (simp add: stored_zlib_def utf8_encode_Hi stored_deflate_Hi compressed_Hi_def)

lemma utf8_decode_compressed_Hi: "utf8_decode compressed_Hi = garbled_Hi"
  by (simp add: utf8_decode_def compressed_Hi_def garbled_Hi_def)

lemma utf8_encode_garbled_Hi:
  "utf8_encode garbled_Hi =
     [0x78, 0x01, 0x01, 0x02, 0x00, 0xEF, 0xBF, 0xBD, 0xEF, 0xBF, 0xBD, 0x48, 0x69, 0x00,
      0xEF, 0xBF, 0xBD, 0x00, 0xEF, 0xBF, 0xBD]"
  by (simp add: utf8_encode_def utf8_encode_cp_def byte_of_def garbled_Hi_def)

lemma utf8_decode_encode_garbled_Hi: "utf8_decode (utf8_encode garbled_Hi) = garbled_Hi"
  by (rule decode_encode) (simp add: garbled_Hi_def scalar_def)

lemma stored_deflate_garbled_Hi:
  "stored_deflate 100 (utf8_encode garbled_Hi) = Inr recompressed_Hi"
  unfolding utf8_encode_garbled_Hi
  by (simp add: stored_deflate_def stored_blocks.simps adler32_def be32_def le16_def byte_of_def
      recompressed_Hi_def)


lemma compressMessage_sample_Hi:
  "compressMessage (stored_zlib 100) (sample_Notification\<lparr>message := JSBuffer [0x48, 0x69]\<rparr>)
     = (sample_Notification\<lparr>message := JSBuffer compressed_Hi\<rparr>, [])"
proof -
  have "utf8_decode [0x48, 0x69] = [72, 105]" by (simp add: utf8_decode_def)
  then show ?thesis
    using deflate_Hi by (simp add: compressMessage_def deflateAsync_def)
qed

lemma compressMessage_stored_compressed_Hi:
  "compressMessage (stored_zlib 100) (r\<lparr>message := JSBuffer compressed_Hi\<rparr>)
     = (r\<lparr>message := JSBuffer recompressed_Hi\<rparr>, [])"
  using stored_deflate_garbled_Hi
  by (simp add: compressMessage_def deflateAsync_def utf8_decode_compressed_Hi stored_zlib_def)

lemma unzip_compressed_Hi: "unzip (stored_zlib 100) compressed_Hi = Inr [0x48, 0x69]"
  using stored_unzip_deflate[OF stored_deflate_Hi]
  by (simp add: stored_zlib_def compressed_Hi_def)

lemma unzip_recompressed_Hi:
  "unzip (stored_zlib 100) recompressed_Hi = Inr (utf8_encode garbled_Hi)"
  using stored_unzip_deflate[OF stored_deflate_garbled_Hi] by (simp add: stored_zlib_def)

lemma keys_Notification_rows_update [simp]:
  "e \<noteq> Notification \<Longrightarrow> keys (d\<lparr> Notification_rows := rs \<rparr>) e = keys d e"
  by (cases e) simp_all

lemma Notification_checks_rows [simp]:
  "Notification_checks (d\<lparr> Notification_rows := rs \<rparr>) n = Notification_checks d n"
  by (simp add: Notification_checks_def references_def Notification_studio_def
      Notification_user_def split: option.splits)

lemma compressMessage_keeps:
  "status (fst (compressMessage z n)) = status n"
  "deliveredAt (fst (compressMessage z n)) = deliveredAt n"
  "errorLog (fst (compressMessage z n)) = errorLog n"
  by (auto simp add: compressMessage_def split: sum.splits)

lemma update_Notification_accepted:
  assumes "fst (update_Notification z now d n) = Inr d'"
  shows "first_error (Notification_checks d ((fst (compressMessage z n))\<lparr> updatedAt := Some now \<rparr>))
           = None"
  using assms
  by (cases "compressMessage z n")
     (auto simp add: update_Notification_def Let_def split: option.splits)

lemma Notification_checks_status:
  assumes "first_error (Notification_checks d n) = None"
  shows "status n \<in> {Some ''pending'', Some ''sent'', Some ''failed''}"
proof -
  from assms have "not_null ''status'' (status n) = None"
    and "enum [''pending'', ''sent'', ''failed''] ''status'' (status n) = None"
    by (simp_all add: first_error_None_iff Notification_checks_def)
  then show ?thesis
    by (cases "status n") (auto simp add: not_null_def enum_def split: if_splits)
qed

lemma update_sample_sent:
  assumes "s \<in> {''pending'', ''sent'', ''failed''}"
  shows "update_Notification (stored_zlib 100) t (sample_db sample_sent)
           (sample_sent\<lparr> status := Some s, deliveredAt := dl, errorLog := el \<rparr>)
         = (Inr (sample_db ((sample_stored (JSBuffer recompressed_Hi))
                      \<lparr> status := Some s, deliveredAt := dl, errorLog := el,
                        updatedAt := Some t \<rparr>)), [])"
proof -
  let ?n = "sample_sent\<lparr> status := Some s, deliveredAt := dl, errorLog := el \<rparr>"
  let ?h = "(sample_stored (JSBuffer recompressed_Hi))
              \<lparr> status := Some s, deliveredAt := dl, errorLog := el,
                updatedAt := Some 1700000060 \<rparr>"
  have c: "compressMessage (stored_zlib 100) ?n = (?h, [])"
    using compressMessage_stored_compressed_Hi[of ?n]
    by (simp add: sample_sent_def sample_stored_def)
  have u: "uuid ?n = uuid sample_sent" by simp
  have k: "first_error (Notification_checks (sample_db sample_sent) (?h\<lparr> updatedAt := Some t \<rparr>))
             = None"
    using sample_checks[where m = "JSBuffer recompressed_Hi" and s = s and old = sample_sent
        and dl = dl and el = el and t = t] assms
    by (simp add: message_not_null_def)
  show ?thesis
    using update_sample[OF c u k] by simp
qed

lemma insert_Notification_codec:
  "compressMessage z n = compressMessage z' n \<Longrightarrow>
   insert_Notification z key now d n = insert_Notification z' key now d n"
  by (simp add: insert_Notification_def)

lemma update_Notification_codec:
  "compressMessage z n = compressMessage z' n \<Longrightarrow>
   update_Notification z now d n = update_Notification z' now d n"
  by (simp add: update_Notification_def)

lemma insert_Notification_null_message:
  assumes "message n = Undefined \<or> message n = Null"
  shows "\<exists>e. fst (insert_Notification z key now d n) = Inl e"
proof -
  have c: "compressMessage z n = (n, [])" using assms by (auto simp add: compressMessage_def)
  let ?row = "Notification_defaults (n\<lparr> uuid := Some key, createdAt := Some now,
                                            updatedAt := Some now \<rparr>)"
  have "message_not_null (message ?row) \<noteq> None"
    using assms by (auto simp add: message_not_null_def)
  then have "message_not_null (message ?row) \<in> set (Notification_checks d ?row)"
    "message_not_null (message ?row) \<noteq> None"
    by (simp_all add: Notification_checks_def)
  then have "first_error (unique_among ''uuid'' (map uuid (Notification_rows d)) (uuid ?row)
                           # Notification_checks d ?row) \<noteq> None"
    unfolding first_error_None_iff by (metis list.set_intros(2))
  then show ?thesis
    by (auto simp add: insert_Notification_def c Let_def split: option.splits)
qed

section \<open>Media interactions: what the store accepts\<close>

lemma not_null_None_iff: "not_null c v = None \<longleftrightarrow> v \<noteq> None"
  by (cases v) (simp_all add: not_null_def)

lemma varchar_None_iff: "varchar len c v = None \<longleftrightarrow> (\<forall>s. v = Some s \<longrightarrow> length s \<le> len)"
  by (cases v) (simp_all add: varchar_def)

lemma references_None_iff:
  "nullable r \<Longrightarrow> references d r v = None \<longleftrightarrow> set_option v \<subseteq> set (keys d (target r))"
  by (cases v) (simp_all add: references_def)

lemma MediaInteraction_checks_None_iff:
  "first_error (MediaInteraction_checks d i) = None \<longleftrightarrow>
     (uuid i = None \<or> uuid i \<notin> set (map uuid (MediaInteraction_rows d)))
     \<and> (\<exists>t. interactionType i = Some t \<and> length t \<le> 50)
     \<and> timestamp i \<noteq> None
     \<and> set_option (media_interaction.user i) \<subseteq> set (keys d User)
     \<and> set_option (music i) \<subseteq> set (keys d Music)
     \<and> set_option (photo i) \<subseteq> set (keys d Photo)
     \<and> set_option (video i) \<subseteq> set (keys d Video)
     \<and> set_option (playlist i) \<subseteq> set (keys d Playlist)"
proof -
  have u: "unique_among ''uuid'' (map uuid (MediaInteraction_rows d)) (uuid i) = None
             \<longleftrightarrow> (uuid i = None \<or> uuid i \<notin> set (map uuid (MediaInteraction_rows d)))"
    by (cases "uuid i") (simp_all add: unique_among_def)
  have r: "references d MediaInteraction_user (media_interaction.user i) = None
             \<longleftrightarrow> set_option (media_interaction.user i) \<subseteq> set (keys d User)"
      "references d MediaInteraction_music (music i) = None
             \<longleftrightarrow> set_option (music i) \<subseteq> set (keys d Music)"
      "references d MediaInteraction_photo (photo i) = None
             \<longleftrightarrow> set_option (photo i) \<subseteq> set (keys d Photo)"
      "references d MediaInteraction_video (video i) = None
             \<longleftrightarrow> set_option (video i) \<subseteq> set (keys d Video)"
      "references d MediaInteraction_playlist (playlist i) = None
             \<longleftrightarrow> set_option (playlist i) \<subseteq> set (keys d Playlist)"
    by (subst references_None_iff;
        simp add: MediaInteraction_user_def MediaInteraction_music_def
          MediaInteraction_photo_def MediaInteraction_video_def MediaInteraction_playlist_def)+
  have t: "not_null ''interactionType'' (interactionType i) = None
           \<and> varchar 50 ''interactionType'' (interactionType i) = None
           \<longleftrightarrow> (\<exists>t. interactionType i = Some t \<and> length t \<le> 50)"
    by (cases "interactionType i") (simp_all add: not_null_def varchar_def)
  show ?thesis
    using t by (simp add: first_error_None_iff MediaInteraction_checks_def u r not_null_None_iff)
       blast
qed

section \<open>The media classes and the attribute set\<close>

lemma carries_Cons:
  "carries (c # cols) a = (if name c = fst a then meets c (snd a) else carries cols a)"
  by (simp add: carries_def)

lemma carries_Nil: "carries [] a = False"
  by (simp add: carries_def)

lemma BaseMediaItem_carries: "list_all (carries BaseMediaItem_columns) media_asset_attributes"
  by (simp add: media_asset_attributes_def BaseMediaItem_columns_def BaseUUIDEntity_columns_def
      carries_Cons carries_Nil col_def)

lemma carries_append: "carries cols a \<Longrightarrow> carries (cols @ cols2) a"
  by (induction cols) (simp_all add: carries_Cons carries_Nil)

lemma list_all_carries_append:
  "list_all (carries cols) as \<Longrightarrow> list_all (carries (cols @ cols2)) as"
  by (induction as) (simp_all add: carries_append)

lemma Music_carries:
  "filter (carries Music_columns) media_asset_attributes
     = [(''url'', Required), (''title'', Required), (''format'', Required)]"
  by (simp add: media_asset_attributes_def Music_columns_def BaseUUIDEntity_columns_def
      carries_Cons carries_Nil col_def)

lemma Photo_BaseUUIDEntity_carries:
  "filter (carries Photo_BaseUUIDEntity_columns) media_asset_attributes
     = [(''url'', Required), (''title'', Required), (''description'', Optional),
        (''format'', Required)]"
  by (simp add: media_asset_attributes_def Photo_BaseUUIDEntity_columns_def
      BaseUUIDEntity_columns_def carries_Cons carries_Nil col_def)

lemma Video_BaseUUIDEntity_carries:
  "filter (carries Video_BaseUUIDEntity_columns) media_asset_attributes
     = [(''url'', Required), (''title'', Required), (''description'', Optional),
        (''format'', Required)]"
  by (simp add: media_asset_attributes_def Video_BaseUUIDEntity_columns_def
      BaseUUIDEntity_columns_def carries_Cons carries_Nil col_def)

lemma status_column:
  "find (\<lambda>c. name c = ''status'') BaseMediaItem_columns
     = Some ((col ''status'' (T_varchar 50))\<lparr>dflt := Some (DString ''active'')\<rparr>)"
  by (simp add: BaseMediaItem_columns_def BaseUUIDEntity_columns_def col_def)

section \<open>Users: unique columns in every history\<close>

lemma map_filter_Cons:
  "List.map_filter f (x # xs) = (case f x of None \<Rightarrow> List.map_filter f xs
                                  | Some y \<Rightarrow> y # List.map_filter f xs)"
  by (simp add: List.map_filter_simps)

lemma set_map_filter: "set (List.map_filter f xs) = {y. Some y \<in> set (map f xs)}"
  by (induction xs) (auto simp add: List.map_filter_simps split: option.splits)

lemma map_filter_append:
  "List.map_filter f (xs @ ys) = List.map_filter f xs @ List.map_filter f ys"
  by (simp add: List.map_filter_def)

lemma distinct_map_filter_snoc:
  assumes "distinct (List.map_filter f rows)" and "unique_among c (map f rows) (f row) = None"
  shows "distinct (List.map_filter f (rows @ [row]))"
proof (cases "f row")
  case None
  then show ?thesis using assms(1) by (simp add: map_filter_append List.map_filter_simps)
next
  case (Some y)
  then have "Some y \<notin> set (map f rows)"
    using assms(2) by (simp add: unique_among_def split: if_splits)
  then have "y \<notin> set (List.map_filter f rows)" by (simp add: set_map_filter)
  then show ?thesis
    using assms(1) Some by (simp add: map_filter_append List.map_filter_simps)
qed

lemma replace_absent:
  "\<forall>r \<in> set rows. k r \<noteq> k row \<Longrightarrow> map (\<lambda>r. if k r = k row then row else r) rows = rows"
  by (induction rows) auto

lemma distinct_map_filter_replace:
  assumes "distinct (map k rows)" and "distinct (List.map_filter f rows)"
    and "unique_among c (map f (filter (\<lambda>r. k r \<noteq> k row) rows)) (f row) = None"
  shows "distinct (List.map_filter f (map (\<lambda>r. if k r = k row then row else r) rows))"
  using assms
proof (induction rows)
  case Nil
  then show ?case by (simp add: List.map_filter_simps)
next
  case (Cons r rows)
  show ?case
  proof (cases "k r = k row")
    case True
    have "k r \<notin> k ` set rows" using Cons.prems(1) by simp
    then have absent: "\<forall>r' \<in> set rows. k r' \<noteq> k row"
      unfolding True by (intro ballI notI) (metis imageI)
    then have same: "map (\<lambda>r. if k r = k row then row else r) rows = rows"
      by (rule replace_absent)
    have keep: "filter (\<lambda>r. k r \<noteq> k row) rows = rows" using absent by (simp add: filter_id_conv)
    have tail: "distinct (List.map_filter f rows)"
      using Cons.prems(2) by (simp add: map_filter_Cons split: option.splits)
    have u: "unique_among c (map f rows) (f row) = None"
      using Cons.prems(3) True by (simp add: keep)
    have "distinct (List.map_filter f (row # rows))"
    proof (cases "f row")
      case None
      then show ?thesis using tail by (simp add: map_filter_Cons)
    next
      case (Some y)
      then have "Some y \<notin> set (map f rows)"
        using u by (simp add: unique_among_def split: if_splits)
      then have "y \<notin> set (List.map_filter f rows)" by (simp add: set_map_filter)
      then show ?thesis using tail Some by (simp add: map_filter_Cons)
    qed
    then show ?thesis using True by (simp add: same)
  next
    case False
    let ?rows' = "map (\<lambda>r. if k r = k row then row else r) rows"
    have u: "unique_among c (map f (filter (\<lambda>r. k r \<noteq> k row) rows)) (f row) = None"
      using Cons.prems(3) False
      by (cases "f row") (auto simp add: unique_among_def split: if_splits)
    have tail: "distinct (List.map_filter f rows)"
      using Cons.prems(2) by (simp add: map_filter_Cons split: option.splits)
    have IH: "distinct (List.map_filter f ?rows')"
      using Cons.IH[OF _ tail u] Cons.prems(1) by simp
    show ?thesis
    proof (cases "f r")
      case None
      then show ?thesis using False IH by (simp add: map_filter_Cons)
    next
      case (Some y)
      have 1: "Some y \<notin> set (map f rows)"
        using Cons.prems(2) Some by (simp add: map_filter_Cons set_map_filter)
      have 2: "f row \<noteq> Some y"
      proof
        assume e: "f row = Some y"
        have "Some y \<in> set (map f (filter (\<lambda>r. k r \<noteq> k row) (r # rows)))"
          using False Some by simp
        then show False
          using Cons.prems(3) e by (simp add: unique_among_def split: if_splits)
      qed
      have "Some y \<notin> set (map f ?rows')"
      proof
        assume "Some y \<in> set (map f ?rows')"
        then obtain x where x: "x \<in> set rows"
          and fx: "Some y = f (if k x = k row then row else x)" by auto
        show False
        proof (cases "k x = k row")
          case True
          then show ?thesis using fx 2 by simp
        next
          case False
          then have "Some y \<in> set (map f rows)" using fx x by (simp add: image_iff) metis
          then show ?thesis using 1 by simp
        qed
      qed
      then have "y \<notin> set (List.map_filter f ?rows')" by (simp add: set_map_filter)
      then show ?thesis using False IH Some by (simp add: map_filter_Cons)
    qed
  qed
qed


lemma distinct_map_no_None:
  "None \<notin> set (map f xs) \<Longrightarrow> distinct (List.map_filter f xs) \<Longrightarrow> distinct (map f xs)"
proof (induction xs)
  case Nil
  then show ?case by simp
next
  case (Cons x xs)
  then obtain y where y: "f x = Some y" by (cases "f x") auto
  with Cons.prems(2) have "y \<notin> set (List.map_filter f xs)" "distinct (List.map_filter f xs)"
    by (simp_all add: map_filter_Cons)
  then have "Some y \<notin> set (map f xs)" by (simp add: set_map_filter)
  with Cons y show ?case by (simp add: map_filter_Cons)
qed

lemma first_error_append:
  "first_error (xs @ ys) = (case first_error xs of None \<Rightarrow> first_error ys | Some e \<Rightarrow> Some e)"
  by (induction xs rule: first_error.induct) simp_all

lemma insert_User_Inr:
  assumes "insert_User key now d u = Inr d'"
  defines "row \<equiv> User_defaults (u\<lparr> uuid := Some key, createdAt := Some now,
                                      updatedAt := Some now \<rparr>)"
  shows "first_error (User_column_checks row) = None"
    and "first_error (User_unique_checks (User_rows d) row) = None"
    and "d' = d\<lparr> User_rows := User_rows d @ [row] \<rparr>"
  using assms(1) unfolding row_def
  by (auto simp add: insert_User_def Let_def first_error_append split: option.splits)

lemma User_defaults_fields [simp]:
  "uuid (User_defaults u) = uuid u" "email (User_defaults u) = email u"
  "phoneNumber (User_defaults u) = phoneNumber u"
  by (simp_all add: User_defaults_def)

lemma insert_User_ok:
  assumes "User_rows_ok (User_rows d)" and "insert_User key now d u = Inr d'"
  shows "User_rows_ok (User_rows d')"
proof -
  let ?row = "User_defaults (u\<lparr> uuid := Some key, createdAt := Some now,
                                   updatedAt := Some now \<rparr>)"
  let ?rows = "User_rows d"
  note i = insert_User_Inr[OF assms(2)]
  have c: "not_null ''email'' (email ?row) = None"
    using i(1) by (simp add: first_error_None_iff User_column_checks_def)
  have u: "unique_among ''uuid'' (map uuid ?rows) (uuid ?row) = None"
    "unique_among ''phoneNumber'' (map phoneNumber ?rows) (phoneNumber ?row) = None"
    "unique_among ''email'' (map email ?rows) (email ?row) = None"
    using i(2) by (simp_all add: first_error_None_iff User_unique_checks_def)
  have k: "Some key \<notin> set (map uuid ?rows)"
    using u(1) by (simp add: unique_among_def split: if_splits)
  have e: "email ?row \<noteq> None" using c by (simp add: not_null_None_iff)
  have "distinct (map uuid (?rows @ [?row]))"
    using assms(1) k by (simp add: User_rows_ok_def)
  moreover have "None \<notin> set (map email (?rows @ [?row]))"
  proof -
    have "None \<notin> email ` set ?rows" using assms(1) by (simp add: User_rows_ok_def)
    then show ?thesis using e by auto
  qed
  moreover have "distinct (List.map_filter email (?rows @ [?row]))"
    using assms(1) u(3) by (intro distinct_map_filter_snoc) (simp_all add: User_rows_ok_def)
  moreover have "distinct (List.map_filter phoneNumber (?rows @ [?row]))"
    using assms(1) u(2) by (intro distinct_map_filter_snoc) (simp_all add: User_rows_ok_def)
  ultimately show ?thesis
    unfolding i(3) User_rows_ok_def by simp
qed

lemma update_User_ok:
  assumes "User_rows_ok (User_rows d)" and "update_User now d u = Inr d'"
  shows "User_rows_ok (User_rows d')"
proof -
  let ?row = "u\<lparr> updatedAt := Some now \<rparr>"
  let ?rows = "User_rows d"
  let ?others = "filter (\<lambda>r. uuid r \<noteq> uuid ?row) ?rows"
  let ?rows' = "map (\<lambda>r. if uuid r = uuid ?row then ?row else r) ?rows"
  from assms(2) have ok: "first_error (User_column_checks ?row @ User_unique_checks ?others ?row)
                            = None"
    and d': "d' = d\<lparr> User_rows := ?rows' \<rparr>"
    by (auto simp add: update_User_def Let_def split: option.splits)
  have c: "not_null ''email'' (email ?row) = None"
    using ok by (simp add: first_error_None_iff User_column_checks_def)
  have u: "unique_among ''phoneNumber'' (map phoneNumber ?others) (phoneNumber ?row) = None"
    "unique_among ''email'' (map email ?others) (email ?row) = None"
    using ok by (simp_all add: first_error_None_iff User_unique_checks_def)
  have e: "email ?row \<noteq> None" using c by (simp add: not_null_None_iff)
  have "map uuid ?rows' = map uuid ?rows" by (induction ?rows) simp_all
  then have "distinct (map uuid ?rows')" using assms(1) by (simp only: User_rows_ok_def)
  moreover have "None \<notin> set (map email ?rows')"
  proof
    assume "None \<in> set (map email ?rows')"
    then obtain x where x: "x \<in> set ?rows"
      and n: "email (if uuid x = uuid ?row then ?row else x) = None" by auto
    have "None \<notin> email ` set ?rows" using assms(1) by (simp add: User_rows_ok_def)
    then have "email x \<noteq> None" using x by (metis imageI)
    then show False using n e by (cases "uuid x = uuid ?row") simp_all
  qed
  moreover have "distinct (List.map_filter email ?rows')"
    using assms(1) u(2) by (intro distinct_map_filter_replace) (simp_all add: User_rows_ok_def)
  moreover have "distinct (List.map_filter phoneNumber ?rows')"
    using assms(1) u(1) by (intro distinct_map_filter_replace) (simp_all add: User_rows_ok_def)
  ultimately show ?thesis
    unfolding d' User_rows_ok_def by simp
qed

lemma perform_ok: "User_rows_ok (User_rows d) \<Longrightarrow> User_rows_ok (User_rows (perform d w))"
proof (cases w)
  case (Insert_User key now u)
  assume "User_rows_ok (User_rows d)"
  then show ?thesis
    using Insert_User insert_User_ok[of d key now u] by (simp split: sum.splits)
next
  case (Update_User now u)
  assume "User_rows_ok (User_rows d)"
  then show ?thesis
    using Update_User update_User_ok[of d now u] by (simp split: sum.splits)
next
  case (Insert_MediaInteraction key now i)
  assume "User_rows_ok (User_rows d)"
  then show ?thesis
    using Insert_MediaInteraction
    by (auto simp add: insert_MediaInteraction_def Let_def split: sum.splits option.splits)
next
  case (Insert_Notification z key now n)
  assume "User_rows_ok (User_rows d)"
  then show ?thesis
    using Insert_Notification
    by (cases "compressMessage z n")
       (auto simp add: insert_Notification_def Let_def split: sum.splits option.splits)
next
  case (Update_Notification z now n)
  assume "User_rows_ok (User_rows d)"
  then show ?thesis
    using Update_Notification
    by (cases "compressMessage z n")
       (auto simp add: update_Notification_def Let_def split: sum.splits option.splits)
qed

lemma foldl_perform_ok:
  "User_rows_ok (User_rows d) \<Longrightarrow> User_rows_ok (User_rows (foldl perform d ws))"
  by (induction ws arbitrary: d) (simp_all add: perform_ok)

lemma history_ok: "User_rows_ok (User_rows (history ws))"
  unfolding history_def
  by (rule foldl_perform_ok) (simp add: User_rows_ok_def empty_db_def List.map_filter_simps)


lemma first_error_Some_mem: "first_error cs = Some e \<Longrightarrow> Some e \<in> set cs"
  by (induction cs rule: first_error.induct) auto

lemma User_unique_checks_kind:
  "Some e \<in> set (User_unique_checks others u) \<Longrightarrow> \<exists>c. e = UniqueViolation c"
  by (auto simp add: User_unique_checks_def unique_among_def split: option.splits if_splits)

lemma insert_User_duplicate_email:
  assumes "insert_User ka ta d ua = Inr da" and "email ub = email ua"
  shows "\<exists>e. insert_User kb tb da ub = Inl e"
    and "(\<exists>dz. insert_User kb tb empty_db ub = Inr dz) \<Longrightarrow>
           \<exists>c. insert_User kb tb da ub = Inl (UniqueViolation c)"
proof -
  let ?row1 = "User_defaults (ua\<lparr> uuid := Some ka, createdAt := Some ta,
                                     updatedAt := Some ta \<rparr>)"
  let ?row2 = "User_defaults (ub\<lparr> uuid := Some kb, createdAt := Some tb,
                                     updatedAt := Some tb \<rparr>)"
  note i = insert_User_Inr[OF assms(1)]
  have "not_null ''email'' (email ?row1) = None"
    using i(1) by (simp add: first_error_None_iff User_column_checks_def)
  then obtain a where a: "email ua = Some a"
    by (cases "email ua") (simp_all add: not_null_def)
  have rows: "User_rows da = User_rows d @ [?row1]" using i(3) by simp
  have dup: "unique_among ''email'' (map email (User_rows da)) (email ?row2)
               = Some (UniqueViolation ''email'')"
    using a assms(2) by (simp add: rows unique_among_def)
  then have "Some (UniqueViolation ''email'') \<in> set (User_unique_checks (User_rows da) ?row2)"
    by (simp add: User_unique_checks_def)
  then have u: "first_error (User_unique_checks (User_rows da) ?row2) \<noteq> None"
    by (auto simp add: first_error_None_iff)
  then have f: "first_error (User_column_checks ?row2 @ User_unique_checks (User_rows da) ?row2)
               \<noteq> None"
    by (simp add: first_error_append split: option.splits)
  then show "\<exists>e. insert_User kb tb da ub = Inl e"
    by (auto simp add: insert_User_def Let_def split: option.splits)
  assume "\<exists>dz. insert_User kb tb empty_db ub = Inr dz"
  then obtain dz where "insert_User kb tb empty_db ub = Inr dz" ..
  from insert_User_Inr(1)[OF this]
  have c: "first_error (User_column_checks ?row2) = None" .
  from u obtain e where e: "first_error (User_unique_checks (User_rows da) ?row2) = Some e"
    by auto
  then obtain col where "e = UniqueViolation col"
    using first_error_Some_mem User_unique_checks_kind by blast
  then have "insert_User kb tb da ub = Inl (UniqueViolation col)"
    using c e by (simp add: insert_User_def Let_def first_error_append)
  then show "\<exists>c. insert_User kb tb da ub = Inl (UniqueViolation c)" ..
qed

lemma insert_sample_User:
  "insert_User ''u1'' 1700000000 empty_db sample_User
     = Inr (empty_db\<lparr> User_rows := [sample_User_row] \<rparr>)"
  by (simp add: insert_User_def User_defaults_def User_column_checks_def User_unique_checks_def
      sample_User_def sample_User_row_def empty_db_def varchar_def not_null_def unique_among_def)

lemma User_column_checks_None_iff:
  "first_error (User_column_checks (User_defaults u)) = None \<longleftrightarrow>
     (\<exists>e. email u = Some e \<and> length e \<le> 255)
     \<and> (\<exists>p. pin u = Some p \<and> length p \<le> 128)
     \<and> (\<exists>h. password_hash u = Some h \<and> length h \<le> 255)
     \<and> (\<forall>s \<in> set_option (accountType u) \<union> set_option (user.channel u)
               \<union> set_option (phoneNumber u) \<union> set_option (secondaryPhoneNumber u)
               \<union> set_option (secondaryEmail u). length s \<le> 255)"
proof -
  have e: "not_null ''email'' (email u) = None \<and> varchar 255 ''email'' (email u) = None
             \<longleftrightarrow> (\<exists>e. email u = Some e \<and> length e \<le> 255)"
    by (cases "email u") (simp_all add: not_null_def varchar_def)
  have p: "not_null ''pin'' (pin u) = None \<and> varchar 128 ''pin'' (pin u) = None
             \<longleftrightarrow> (\<exists>p. pin u = Some p \<and> length p \<le> 128)"
    by (cases "pin u") (simp_all add: not_null_def varchar_def)
  have h: "not_null ''password_hash'' (password_hash u) = None
             \<and> varchar 255 ''password_hash'' (password_hash u) = None
             \<longleftrightarrow> (\<exists>h. password_hash u = Some h \<and> length h \<le> 255)"
    by (cases "password_hash u") (simp_all add: not_null_def varchar_def)
  have v: "varchar 255 c x = None \<longleftrightarrow> (\<forall>s \<in> set_option x. length s \<le> 255)" for c x
    by (cases x) (simp_all add: varchar_def)
  have d: "not_null ''validatedPhoneNumber'' (validatedPhoneNumber (User_defaults u)) = None"
    by (cases "validatedPhoneNumber u") (simp_all add: User_defaults_def not_null_def)
  have d2: "not_null ''validatedEmail'' (validatedEmail (User_defaults u)) = None"
    by (cases "validatedEmail u") (simp_all add: User_defaults_def not_null_def)
  have f: "accountType (User_defaults u) = accountType u"
    "user.channel (User_defaults u) = user.channel u"
    "secondaryPhoneNumber (User_defaults u) = secondaryPhoneNumber u"
    "secondaryEmail (User_defaults u) = secondaryEmail u"
    "pin (User_defaults u) = pin u" "password_hash (User_defaults u) = password_hash u"
    by (simp_all add: User_defaults_def)
  show ?thesis
    using e p h
    by (simp add: first_error_None_iff User_column_checks_def d d2 f v ball_Un) blast
qed

lemma User_unique_checks_None_iff:
  "first_error (User_unique_checks rows u) = None \<longleftrightarrow>
     (uuid u = None \<or> uuid u \<notin> set (map uuid rows))
     \<and> (phoneNumber u = None \<or> phoneNumber u \<notin> set (map phoneNumber rows))
     \<and> (email u = None \<or> email u \<notin> set (map email rows))"
proof -
  have q: "unique_among c others v = None \<longleftrightarrow> (v = None \<or> v \<notin> set others)"
    for c :: string and others :: "'a option list" and v
    by (cases v) (simp_all add: unique_among_def)
  show ?thesis
    by (simp only: first_error_None_iff User_unique_checks_def list.set ball_simps
        insert_iff empty_iff q) blast
qed

lemma insert_User_accepts_iff:
  "(\<exists>d'. insert_User key now d u = Inr d') \<longleftrightarrow>
     (\<exists>e. email u = Some e \<and> length e \<le> 255)
     \<and> (\<exists>p. pin u = Some p \<and> length p \<le> 128)
     \<and> (\<exists>h. password_hash u = Some h \<and> length h \<le> 255)
     \<and> (\<forall>s \<in> set_option (accountType u) \<union> set_option (user.channel u)
               \<union> set_option (phoneNumber u) \<union> set_option (secondaryPhoneNumber u)
               \<union> set_option (secondaryEmail u). length s \<le> 255)
     \<and> Some key \<notin> set (map uuid (User_rows d))
     \<and> email u \<notin> set (map email (User_rows d))
     \<and> (phoneNumber u = None \<or> phoneNumber u \<notin> set (map phoneNumber (User_rows d)))"
proof -
  let ?v = "u\<lparr> uuid := Some key, createdAt := Some now, updatedAt := Some now \<rparr>"
  let ?row = "User_defaults ?v"
  have a: "(\<exists>d'. insert_User key now d u = Inr d') \<longleftrightarrow>
             first_error (User_column_checks ?row) = None
             \<and> first_error (User_unique_checks (User_rows d) ?row) = None"
    by (auto simp add: insert_User_def Let_def first_error_append split: option.splits)
  have c: "first_error (User_column_checks ?row) = None \<longleftrightarrow>
     (\<exists>e. email u = Some e \<and> length e \<le> 255)
     \<and> (\<exists>p. pin u = Some p \<and> length p \<le> 128)
     \<and> (\<exists>h. password_hash u = Some h \<and> length h \<le> 255)
     \<and> (\<forall>s \<in> set_option (accountType u) \<union> set_option (user.channel u)
               \<union> set_option (phoneNumber u) \<union> set_option (secondaryPhoneNumber u)
               \<union> set_option (secondaryEmail u). length s \<le> 255)"
    using User_column_checks_None_iff[of ?v] by simp
  have q: "first_error (User_unique_checks (User_rows d) ?row) = None \<longleftrightarrow>
     Some key \<notin> set (map uuid (User_rows d))
     \<and> (phoneNumber u = None \<or> phoneNumber u \<notin> set (map phoneNumber (User_rows d)))
     \<and> (email u = None \<or> email u \<notin> set (map email (User_rows d)))"
    by (simp add: User_unique_checks_None_iff)
  show ?thesis
    unfolding a c q by auto
qed


lemma insert_User_fresh:
  assumes "\<exists>dz. insert_User key now empty_db u = Inr dz"
    and "Some key \<notin> set (map uuid (User_rows d))"
    and "email u \<notin> set (map email (User_rows d))"
    and "phoneNumber u = None \<or> phoneNumber u \<notin> set (map phoneNumber (User_rows d))"
  shows "\<exists>da row. insert_User key now d u = Inr da \<and> User_rows da = User_rows d @ [row]
           \<and> email row = email u"
proof -
  have "\<exists>d'. insert_User key now d u = Inr d'"
    using assms unfolding insert_User_accepts_iff by simp
  then obtain da where da: "insert_User key now d u = Inr da" ..
  from insert_User_Inr(3)[OF da] show ?thesis using da by auto
qed

section \<open>Claims\<close>

text \<open>
  C1. Claimed: for every byte sequence \<open>m\<close> supplied as the message, \<^verbatim>\<open>getMessage\<close> after the
  \<^verbatim>\<open>compressMessage\<close> hook returns exactly \<open>m\<close>. The hook passes the buffer through
  \<^verbatim>\<open>toString("utf-8")\<close> before compressing, so bytes that are not well-formed UTF-8 are
  replaced: the one-byte message \<open>FF\<close> comes back as U+FFFD, whose bytes are \<open>EF BF BD\<close>.
\<close>

theorem getMessage_after_compressMessage_counterexample:
  "getMessage (stored_zlib 100)
     (fst (compressMessage (stored_zlib 100) (sample_Notification\<lparr>message := JSBuffer [0xFF]\<rparr>)))
     = (Inr [0xFFFD], [])
   \<and> utf8_encode [0xFFFD] \<noteq> [0xFF]"
proof -
  let ?n = "sample_Notification\<lparr>message := JSBuffer [0xFF]\<rparr>"
  let ?c = "[0x78, 0x01, 0x01, 0x03, 0x00, 0xFC, 0xFF, 0xEF, 0xBF, 0xBD, 0x05, 0x0B, 0x02, 0x6C] :: bytes"
  have 1: "message ?n = JSBuffer [0xFF]" by simp
  have 2: "deflate (stored_zlib 100) (utf8_encode (utf8_decode [0xFF])) = Inr ?c"
    by (simp add: stored_zlib_def utf8_decode_FF utf8_encode_FFFD stored_deflate_EFBFBD)
  have 3: "unzip (stored_zlib 100) ?c = Inr [0xEF, 0xBF, 0xBD]"
    using stored_unzip_deflate[OF stored_deflate_EFBFBD] by (simp add: stored_zlib_def)
  show ?thesis
    using hook_then_read[OF 1 2 3] by (simp add: utf8_decode_EFBFBD utf8_encode_FFFD)
qed

text \<open>
  C1, as the code has it: when the message is a buffer holding the UTF-8 encoding of a
  string \<open>s\<close> of Unicode scalar values, \<^verbatim>\<open>deflate\<close> accepts these bytes and \<^verbatim>\<open>unzip\<close> gives
  them back from the compressed buffer, then \<^verbatim>\<open>getMessage\<close> after the hook returns exactly
  \<open>s\<close> and prints nothing.
\<close>

theorem getMessage_after_compressMessage:
  assumes "list_all scalar s"
    and "message n = JSBuffer (utf8_encode s)"
    and "deflate z (utf8_encode s) = Inr c"
    and "unzip z c = Inr (utf8_encode s)"
  shows "getMessage z (fst (compressMessage z n)) = (Inr s, [])"
proof -
  have d: "utf8_decode (utf8_encode s) = s" using assms(1) by (rule decode_encode)
  show ?thesis
    using hook_then_read[OF assms(2), of z c "utf8_encode s"] assms(3,4) by (simp add: d)
qed

theorem getMessage_after_compressMessage_witness:
  "list_all scalar [72, 105]
   \<and> message sample_Notification = JSBuffer (utf8_encode [72, 105])
   \<and> deflate (stored_zlib 100) (utf8_encode [72, 105]) =
       Inr [0x78, 0x01, 0x01, 0x02, 0x00, 0xFD, 0xFF, 0x48, 0x69, 0x00, 0xFB, 0x00, 0xB2]
   \<and> unzip (stored_zlib 100)
         [0x78, 0x01, 0x01, 0x02, 0x00, 0xFD, 0xFF, 0x48, 0x69, 0x00, 0xFB, 0x00, 0xB2]
       = Inr (utf8_encode [72, 105])
   \<and> getMessage (stored_zlib 100) (fst (compressMessage (stored_zlib 100) sample_Notification))
       = (Inr [72, 105], [])"
proof -
  let ?c = "[0x78, 0x01, 0x01, 0x02, 0x00, 0xFD, 0xFF, 0x48, 0x69, 0x00, 0xFB, 0x00, 0xB2] :: bytes"
  have 1: "list_all scalar [72, 105]" by (simp add: scalar_def)
  have 2: "message sample_Notification = JSBuffer (utf8_encode [72, 105])"
    by (simp add: sample_Notification_def utf8_encode_Hi)
  have 3: "deflate (stored_zlib 100) (utf8_encode [72, 105]) = Inr ?c"
    by (simp add: stored_zlib_def utf8_encode_Hi stored_deflate_Hi)
  have 4: "unzip (stored_zlib 100) ?c = Inr (utf8_encode [72, 105])"
    using stored_unzip_deflate[OF stored_deflate_Hi] by (simp add: stored_zlib_def utf8_encode_Hi)
  show ?thesis
    using getMessage_after_compressMessage[OF 1 2 3 4] 1 2 3 4 by blast
qed


text \<open>
  C2. Claimed: a stored buffer that is not a valid compressed stream makes \<^verbatim>\<open>getMessage\<close>
  fail with a DecompressionError and never return the empty string. The \<^verbatim>\<open>catch\<close> block of
  \<^verbatim>\<open>getMessage\<close> prints the error and lets the initial value \<^verbatim>\<open>""\<close> be returned: for the
  stored stream of "Hi" with its last checksum byte changed, \<^verbatim>\<open>unzip\<close> rejects and the caller
  receives the empty string.
\<close>

theorem getMessage_corrupt_counterexample:
  "unzip (stored_zlib 100) [0x78, 0x01, 0x01, 0x02, 0x00, 0xFD, 0xFF, 0x48, 0x69, 0x00, 0xFB, 0x00, 0xB3]
     = Inl Z_DATA_ERROR
   \<and> fst (getMessage (stored_zlib 100)
          (sample_stored (JSBuffer [0x78, 0x01, 0x01, 0x02, 0x00, 0xFD, 0xFF, 0x48, 0x69,
                                    0x00, 0xFB, 0x00, 0xB3])))
     = Inr []"
proof -
  have i: "inflate_stored [] [0x01, 0x02, 0x00, 0xFD, 0xFF, 0x48, 0x69, 0x00, 0xFB, 0x00, 0xB3]
     = Inr ([0x48, 0x69], [0x00, 0xFB, 0x00, 0xB3])"
    by simp
  have u: "stored_unzip [0x78, 0x01, 0x01, 0x02, 0x00, 0xFD, 0xFF, 0x48, 0x69, 0x00, 0xFB, 0x00, 0xB3]
     = Inl Z_DATA_ERROR"
    unfolding stored_unzip_def
    by (simp add: i adler32_def be32_def byte_of_def del: inflate_stored.simps)
  show ?thesis
    by (simp add: getMessage_def unzipAsync_def stored_zlib_def u sample_stored_def)
qed

text \<open>
  C2, as the code has it: whenever \<^verbatim>\<open>unzip\<close> rejects the stored buffer, \<^verbatim>\<open>getMessage\<close>
  returns the empty string and prints "Decompression error:" with the error; no error
  reaches the caller.
\<close>

theorem getMessage_unzip_error:
  assumes "Buffer_from (message n) = Inr buffer"
    and "unzip z buffer = Inl error"
  shows "getMessage z n = (Inr [], [(''Decompression error:'', error)])"
  using assms by (simp add: getMessage_def unzipAsync_def)

theorem getMessage_unzip_error_witness:
  "Buffer_from (message sample_Notification) = Inr [0x48, 0x69]
   \<and> unzip (stored_zlib 100) [0x48, 0x69] = Inl Z_DATA_ERROR
   \<and> getMessage (stored_zlib 100) sample_Notification
        = (Inr [], [(''Decompression error:'', Z_DATA_ERROR)])"
proof -
  have 1: "Buffer_from (message sample_Notification) = Inr [0x48, 0x69]"
    by (simp add: sample_Notification_def)
  have 2: "unzip (stored_zlib 100) [0x48, 0x69] = Inl Z_DATA_ERROR"
    by (simp add: stored_zlib_def stored_unzip_raw_Hi)
  show ?thesis using getMessage_unzip_error[OF 1 2] 1 2 by blast
qed

text \<open>
  C3. Claimed: when the compression transform fails, the create or update is aborted with a
  CompressionError and nothing is persisted. The \<^verbatim>\<open>catch\<close> block of the hook prints the error
  and returns, and the write goes on with the entity as it is: with a codec that refuses
  the output, creating the sample notification succeeds and its row holds the bytes of "Hi"
  uncompressed.
\<close>

theorem compressMessage_deflate_error_counterexample:
  "deflate (stored_zlib 10) (utf8_encode [72, 105]) = Inl ERR_BUFFER_TOO_LARGE
   \<and> insert_Notification (stored_zlib 10) ''n1'' 1700000000 empty_db sample_Notification
       = (Inr (sample_db (sample_stored (JSBuffer [0x48, 0x69]))),
          [(''Compression error:'', ERR_BUFFER_TOO_LARGE)])"
proof -
  have d: "deflate (stored_zlib 10) (utf8_encode [72, 105]) = Inl ERR_BUFFER_TOO_LARGE"
    by (simp add: stored_zlib_def stored_deflate_small_limit)
  have c: "compressMessage (stored_zlib 10) (sample_Notification\<lparr>message := JSBuffer [0x48, 0x69]\<rparr>)
             = (sample_Notification\<lparr>message := JSBuffer [0x48, 0x69]\<rparr>,
                [(''Compression error:'', ERR_BUFFER_TOO_LARGE)])"
    by (simp add: compressMessage_def deflateAsync_def stored_zlib_def stored_deflate_small_limit)
  have s: "sample_Notification\<lparr>message := JSBuffer [0x48, 0x69]\<rparr> = sample_Notification"
    by (simp add: sample_Notification_def)
  show ?thesis
    using insert_sample[OF c] d by (simp add: s message_not_null_def)
qed

text \<open>
  C3, as the code has it: when \<^verbatim>\<open>deflate\<close> rejects, the hook prints "Compression error:"
  with the error and returns the entity unchanged; it raises nothing. A create or an update
  that the store then accepts keeps the message the entity held, uncompressed.
\<close>

theorem compressMessage_deflate_error:
  assumes "truthy (message n)"
    and "toString_utf8 (message n) = Inr s"
    and "deflate z (utf8_encode s) = Inl error"
  shows "compressMessage z n = (n, [(''Compression error:'', error)])
       \<and> (\<forall>d'. fst (insert_Notification z key now d n) = Inr d' \<longrightarrow>
              map_option message (find_Notification d' key) = Some (message n))
       \<and> (\<forall>d' old. fst (update_Notification z now d n) = Inr d' \<and> uuid n = Some key
                  \<and> find_Notification d key = Some old \<longrightarrow>
              map_option message (find_Notification d' key) = Some (message n))"
proof -
  have c: "compressMessage z n = (n, [(''Compression error:'', error)])"
    using assms by (simp add: compressMessage_def deflateAsync_def)
  show ?thesis
    using insert_Notification_stores[of z key now d n]
      update_Notification_stores[of z now d n _ key] by (auto simp add: c)
qed

theorem compressMessage_deflate_error_witness:
  "truthy (message sample_Notification)
   \<and> toString_utf8 (message sample_Notification) = Inr [72, 105]
   \<and> deflate (stored_zlib 10) (utf8_encode [72, 105]) = Inl ERR_BUFFER_TOO_LARGE
   \<and> compressMessage (stored_zlib 10) sample_Notification
        = (sample_Notification, [(''Compression error:'', ERR_BUFFER_TOO_LARGE)])
   \<and> fst (insert_Notification (stored_zlib 10) ''n1'' 1700000000 empty_db sample_Notification)
        = Inr (sample_db (sample_stored (JSBuffer [0x48, 0x69])))
   \<and> map_option message (find_Notification (sample_db (sample_stored (JSBuffer [0x48, 0x69]))) ''n1'')
        = Some (message sample_Notification)
   \<and> truthy (message (sample_stored (JSBuffer [0x48, 0x69])))
   \<and> toString_utf8 (message (sample_stored (JSBuffer [0x48, 0x69]))) = Inr [72, 105]
   \<and> fst (update_Notification (stored_zlib 10) 1700000060
             (sample_db (sample_stored (JSBuffer [0x48, 0x69]))) (sample_stored (JSBuffer [0x48, 0x69])))
        = Inr (sample_db ((sample_stored (JSBuffer [0x48, 0x69]))\<lparr> updatedAt := Some 1700000060 \<rparr>))
   \<and> uuid (sample_stored (JSBuffer [0x48, 0x69])) = Some ''n1''
   \<and> find_Notification (sample_db (sample_stored (JSBuffer [0x48, 0x69]))) ''n1''
        = Some (sample_stored (JSBuffer [0x48, 0x69]))
   \<and> map_option message
         (find_Notification
            (sample_db ((sample_stored (JSBuffer [0x48, 0x69]))\<lparr> updatedAt := Some 1700000060 \<rparr>))
            ''n1'')
        = Some (message (sample_stored (JSBuffer [0x48, 0x69])))"
proof -
  let ?z = "stored_zlib 10"
  let ?raw = "JSBuffer [0x48, 0x69]"
  let ?row = "sample_stored ?raw"
  have m: "message sample_Notification = ?raw" "message ?row = ?raw"
    by (simp_all add: sample_Notification_def sample_stored_def)
  have t1: "truthy (message sample_Notification)" and t2: "truthy (message ?row)"
    by (simp_all add: m)
  have s1: "toString_utf8 (message sample_Notification) = Inr [72, 105]"
    and s2: "toString_utf8 (message ?row) = Inr [72, 105]"
    by (simp_all add: m utf8_decode_def)
  have d: "deflate ?z (utf8_encode [72, 105]) = Inl ERR_BUFFER_TOO_LARGE"
    by (simp add: stored_zlib_def stored_deflate_small_limit)
  note A = compressMessage_deflate_error[OF t1 s1 d, of "''n1''" 1700000000 empty_db]
  note B = compressMessage_deflate_error[OF t2 s2 d, of "''n1''" 1700000060 "sample_db ?row"]
  have c1: "compressMessage ?z sample_Notification
              = (sample_Notification, [(''Compression error:'', ERR_BUFFER_TOO_LARGE)])"
    using A by simp
  have e: "sample_Notification\<lparr>message := ?raw\<rparr> = sample_Notification"
    by (simp add: sample_Notification_def)
  have i: "fst (insert_Notification ?z ''n1'' 1700000000 empty_db sample_Notification)
             = Inr (sample_db ?row)"
    using insert_sample[of ?z ?raw ?raw "[(''Compression error:'', ERR_BUFFER_TOO_LARGE)]"] c1
    by (simp add: e message_not_null_def)
  have c2: "compressMessage ?z ?row = (?row, [(''Compression error:'', ERR_BUFFER_TOO_LARGE)])"
    using B by simp
  have u: "fst (update_Notification ?z 1700000060 (sample_db ?row) ?row)
             = Inr (sample_db (?row\<lparr> updatedAt := Some 1700000060 \<rparr>))"
    using update_sample[OF c2, of ?row 1700000060]
      sample_checks[where m = ?raw and s = "''pending''" and old = ?row
        and dl = None and el = None and t = 1700000060]
    by (simp add: message_not_null_def sample_stored_def)
  have k: "uuid ?row = Some ''n1''" by (simp add: sample_stored_def)
  have fd: "find_Notification (sample_db ?row) ''n1'' = Some ?row"
    by (rule find_sample_db[OF k])
  from A i have r1: "map_option message (find_Notification (sample_db ?row) ''n1'')
        = Some (message sample_Notification)" by simp
  from B u k fd have r2: "map_option message
         (find_Notification (sample_db (?row\<lparr> updatedAt := Some 1700000060 \<rparr>)) ''n1'')
        = Some (message ?row)" by simp
  show ?thesis using t1 s1 d c1 i r1 t2 s2 u k fd r2 by blast
qed

text \<open>
  C4. Claimed: an update that does not change the message leaves the stored message bytes
  unchanged; a compressed buffer is never compressed again. The hook is also the
  \<^verbatim>\<open>@BeforeUpdate\<close> hook and has no way to tell a compressed buffer from a fresh message.
  Evaluated on the sample: the notification is created with the message "Hi" and reads
  back as "Hi"; the loaded row is then updated with only \<^verbatim>\<open>status\<close> and \<^verbatim>\<open>deliveredAt\<close>
  changed. The stored bytes change, and \<^verbatim>\<open>getMessage\<close> no longer returns "Hi": it returns
  the first compressed stream read as text.
\<close>

theorem update_Notification_recompresses:
  "insert_Notification (stored_zlib 100) ''n1'' 1700000000 empty_db sample_Notification
     = (Inr (sample_db (sample_stored (JSBuffer compressed_Hi))), [])
   \<and> getMessage (stored_zlib 100) (sample_stored (JSBuffer compressed_Hi)) = (Inr [72, 105], [])
   \<and> update_Notification (stored_zlib 100) 1700000060
         (sample_db (sample_stored (JSBuffer compressed_Hi)))
         ((sample_stored (JSBuffer compressed_Hi))
            \<lparr> status := Some ''sent'', deliveredAt := Some 1700000060 \<rparr>)
     = (Inr (sample_db ((sample_stored (JSBuffer recompressed_Hi))
                          \<lparr> status := Some ''sent'', deliveredAt := Some 1700000060,
                            updatedAt := Some 1700000060 \<rparr>)), [])
   \<and> recompressed_Hi \<noteq> compressed_Hi
   \<and> getMessage (stored_zlib 100)
         ((sample_stored (JSBuffer recompressed_Hi))
            \<lparr> status := Some ''sent'', deliveredAt := Some 1700000060,
              updatedAt := Some 1700000060 \<rparr>)
     = (Inr garbled_Hi, [])
   \<and> garbled_Hi \<noteq> [72, 105]"
proof -
  let ?z = "stored_zlib 100"
  let ?row1 = "sample_stored (JSBuffer compressed_Hi)"
  let ?n = "?row1\<lparr> status := Some ''sent'', deliveredAt := Some 1700000060 \<rparr>"
  let ?row2 = "(sample_stored (JSBuffer recompressed_Hi))
                 \<lparr> status := Some ''sent'', deliveredAt := Some 1700000060,
                   updatedAt := Some 1700000060 \<rparr>"
  have e: "sample_Notification\<lparr>message := JSBuffer [0x48, 0x69]\<rparr> = sample_Notification"
    by (simp add: sample_Notification_def)
  have 1: "insert_Notification ?z ''n1'' 1700000000 empty_db sample_Notification
             = (Inr (sample_db ?row1), [])"
    using insert_sample[OF compressMessage_sample_Hi] by (simp add: e message_not_null_def)
  have 2: "getMessage ?z ?row1 = (Inr [72, 105], [])"
    by (simp add: getMessage_def unzipAsync_def unzip_compressed_Hi sample_stored_def
        utf8_decode_def)
  have c: "compressMessage ?z ?n
             = ((sample_stored (JSBuffer recompressed_Hi))
                  \<lparr> status := Some ''sent'', deliveredAt := Some 1700000060 \<rparr>, [])"
    using compressMessage_stored_compressed_Hi[of ?n] by (simp add: sample_stored_def)
  have 3: "update_Notification ?z 1700000060 (sample_db ?row1) ?n = (Inr (sample_db ?row2), [])"
    using update_sample[OF c, of ?row1 1700000060]
      sample_checks[where m = "JSBuffer recompressed_Hi" and s = "''sent''" and old = ?row1
        and dl = "Some 1700000060" and el = None and t = 1700000060]
    by (simp add: message_not_null_def sample_stored_def)
  have 4: "recompressed_Hi \<noteq> compressed_Hi"
    by (simp add: recompressed_Hi_def compressed_Hi_def)
  have 5: "getMessage ?z ?row2 = (Inr garbled_Hi, [])"
    by (simp add: getMessage_def unzipAsync_def unzip_recompressed_Hi sample_stored_def
        utf8_decode_encode_garbled_Hi)
  have 6: "garbled_Hi \<noteq> [72, 105]" by (simp add: garbled_Hi_def)
  show ?thesis using 1 2 3 4 5 6 by blast
qed

text \<open>
  C5. Claimed: the status is a one-way state machine; \<^verbatim>\<open>markSent\<close> and \<^verbatim>\<open>markFailed\<close> on a
  notification that is already sent or failed fail with InvalidStateError and leave
  \<^verbatim>\<open>status\<close>, \<^verbatim>\<open>deliveredAt\<close> and \<^verbatim>\<open>errorLog\<close> as they were. The entity declares three
  columns and no operation on them: \<^verbatim>\<open>status\<close> is an enum column, and a write is checked
  against the enum only. A notification stored as sent is updated to failed, with
  \<^verbatim>\<open>deliveredAt\<close> cleared and \<^verbatim>\<open>errorLog\<close> set, and the store accepts it.
\<close>

theorem update_Notification_status_counterexample:
  "status sample_sent = Some ''sent''
   \<and> deliveredAt sample_sent = Some 1700000060
   \<and> update_Notification (stored_zlib 100) 1700000120 (sample_db sample_sent)
         (sample_sent\<lparr> status := Some ''failed'', deliveredAt := None,
                        errorLog := Some ''bounced'' \<rparr>)
       = (Inr (sample_db ((sample_stored (JSBuffer recompressed_Hi))
                    \<lparr> status := Some ''failed'', deliveredAt := None,
                      errorLog := Some ''bounced'', updatedAt := Some 1700000120 \<rparr>)), [])"
  using update_sample_sent[where s = "''failed''" and t = 1700000120 and dl = None
      and el = "Some ''bounced''"]
  by (simp add: sample_sent_def sample_stored_def)


text \<open>
  C5, as the code has it: whether an update is accepted does not depend on the rows the
  notification table holds, so not on the stored status; an accepted update stores the
  entity's \<^verbatim>\<open>status\<close>, \<^verbatim>\<open>deliveredAt\<close> and \<^verbatim>\<open>errorLog\<close>, and its status is one of pending,
  sent and failed; a notification created without a status is stored as pending.
\<close>

theorem update_Notification_status_unguarded:
  "isl (fst (update_Notification z now (d\<lparr> Notification_rows := rs \<rparr>) n))
     = isl (fst (update_Notification z now (d\<lparr> Notification_rows := rs' \<rparr>) n))
   \<and> (fst (update_Notification z now d n) = Inr d' \<and> uuid n = Some key
        \<and> find_Notification d key = Some old \<longrightarrow>
      (\<exists>row. find_Notification d' key = Some row
         \<and> status row = status n \<and> deliveredAt row = deliveredAt n \<and> errorLog row = errorLog n)
      \<and> status n \<in> {Some ''pending'', Some ''sent'', Some ''failed''})
   \<and> (fst (insert_Notification z key now d n) = Inr d' \<and> status n = None \<longrightarrow>
      map_option status (find_Notification d' key) = Some (Some ''pending''))"
proof (intro conjI impI)
  show "isl (fst (update_Notification z now (d\<lparr> Notification_rows := rs \<rparr>) n))
     = isl (fst (update_Notification z now (d\<lparr> Notification_rows := rs' \<rparr>) n))"
    by (cases "compressMessage z n")
       (simp add: update_Notification_def Let_def split: option.splits)
next
  assume a: "fst (update_Notification z now d n) = Inr d' \<and> uuid n = Some key
        \<and> find_Notification d key = Some old"
  then have "find_Notification d' key = Some ((fst (compressMessage z n))\<lparr> updatedAt := Some now \<rparr>)"
    using update_Notification_stores by blast
  then show "\<exists>row. find_Notification d' key = Some row
         \<and> status row = status n \<and> deliveredAt row = deliveredAt n \<and> errorLog row = errorLog n"
    by (simp add: compressMessage_keeps)
  from a have "first_error (Notification_checks d
                  ((fst (compressMessage z n))\<lparr> updatedAt := Some now \<rparr>)) = None"
    using update_Notification_accepted by blast
  from Notification_checks_status[OF this]
  show "status n \<in> {Some ''pending'', Some ''sent'', Some ''failed''}"
    by (simp add: compressMessage_keeps)
next
  assume a: "fst (insert_Notification z key now d n) = Inr d' \<and> status n = None"
  then show "map_option status (find_Notification d' key) = Some (Some ''pending'')"
    using insert_Notification_stores[of z key now d n d']
    by (simp add: Notification_defaults_def compressMessage_keeps)
qed


theorem update_Notification_status_unguarded_witness:
  "isl (fst (update_Notification (stored_zlib 100) 1700000120
               (empty_db\<lparr> Notification_rows := [sample_sent] \<rparr>)
               (sample_sent\<lparr> status := Some ''pending'', deliveredAt := None \<rparr>)))
     = isl (fst (update_Notification (stored_zlib 100) 1700000120
                   (empty_db\<lparr> Notification_rows := [] \<rparr>)
                   (sample_sent\<lparr> status := Some ''pending'', deliveredAt := None \<rparr>)))
   \<and> fst (update_Notification (stored_zlib 100) 1700000120 (sample_db sample_sent)
             (sample_sent\<lparr> status := Some ''pending'', deliveredAt := None \<rparr>))
       = Inr (sample_db ((sample_stored (JSBuffer recompressed_Hi))
                           \<lparr> updatedAt := Some 1700000120 \<rparr>))
   \<and> uuid (sample_sent\<lparr> status := Some ''pending'', deliveredAt := None \<rparr>) = Some ''n1''
   \<and> find_Notification (sample_db sample_sent) ''n1'' = Some sample_sent
   \<and> (\<exists>row. find_Notification
                (sample_db ((sample_stored (JSBuffer recompressed_Hi))
                              \<lparr> updatedAt := Some 1700000120 \<rparr>)) ''n1'' = Some row
          \<and> status row = Some ''pending'' \<and> deliveredAt row = None \<and> errorLog row = None)
   \<and> fst (insert_Notification (stored_zlib 100) ''n1'' 1700000000 empty_db sample_Notification)
       = Inr (sample_db (sample_stored (JSBuffer compressed_Hi)))
   \<and> status sample_Notification = None
   \<and> map_option status
         (find_Notification (sample_db (sample_stored (JSBuffer compressed_Hi))) ''n1'')
       = Some (Some ''pending'')"
proof -
  let ?z = "stored_zlib 100"
  let ?n = "sample_sent\<lparr> status := Some ''pending'', deliveredAt := None \<rparr>"
  let ?D = "sample_db ((sample_stored (JSBuffer recompressed_Hi))\<lparr> updatedAt := Some 1700000120 \<rparr>)"
  let ?E = "sample_db (sample_stored (JSBuffer compressed_Hi))"
  note A = update_Notification_status_unguarded[where z = ?z and now = 1700000120 and n = ?n
      and d = "sample_db sample_sent" and d' = ?D and key = "''n1''" and old = sample_sent]
  note B = update_Notification_status_unguarded[where z = ?z and now = 1700000000
      and n = sample_Notification and d = empty_db and d' = ?E and key = "''n1''"]
  note C = update_Notification_status_unguarded[where z = ?z and now = 1700000120 and n = ?n
      and d = empty_db and rs = "[sample_sent]" and rs' = "[]"]
  have 1: "fst (update_Notification ?z 1700000120 (sample_db sample_sent) ?n) = Inr ?D"
    using update_sample_sent[where s = "''pending''" and t = 1700000120 and dl = None
      and el = None]
    by (simp add: sample_sent_def sample_stored_def)
  have 2: "uuid ?n = Some ''n1''" by (simp add: sample_sent_def sample_stored_def)
  have 3: "find_Notification (sample_db sample_sent) ''n1'' = Some sample_sent"
    by (rule find_sample_db) (simp add: sample_sent_def sample_stored_def)
  have e: "sample_Notification\<lparr>message := JSBuffer [0x48, 0x69]\<rparr> = sample_Notification"
    by (simp add: sample_Notification_def)
  have 4: "fst (insert_Notification ?z ''n1'' 1700000000 empty_db sample_Notification) = Inr ?E"
    using insert_sample[OF compressMessage_sample_Hi] by (simp add: e message_not_null_def)
  have 5: "status sample_Notification = None" by (simp add: sample_Notification_def)
  have s: "status ?n = Some ''pending''" "deliveredAt ?n = None" "errorLog ?n = None"
    by (simp_all add: sample_sent_def sample_stored_def)
  from A 1 2 3 have 6: "\<exists>row. find_Notification ?D ''n1'' = Some row
          \<and> status row = Some ''pending'' \<and> deliveredAt row = None \<and> errorLog row = None"
    by (simp add: s)
  from B 4 5 have 7: "map_option status (find_Notification ?E ''n1'') = Some (Some ''pending'')"
    by simp
  from C have 8: "isl (fst (update_Notification ?z 1700000120
               (empty_db\<lparr> Notification_rows := [sample_sent] \<rparr>) ?n))
     = isl (fst (update_Notification ?z 1700000120 (empty_db\<lparr> Notification_rows := [] \<rparr>) ?n))"
    by blast
  show ?thesis using 8 1 2 3 6 4 5 7 by blast
qed

text \<open>
  C6. Claimed: at most one of \<^verbatim>\<open>music\<close>, \<^verbatim>\<open>photo\<close>, \<^verbatim>\<open>video\<close>, \<^verbatim>\<open>playlist\<close> is set, and an
  interaction with two targets is rejected with ValidationError. The entity declares four
  nullable relations and nothing that relates them: the sample interaction names a music
  track and a photo, and the store accepts it.
\<close>

theorem insert_MediaInteraction_counterexample:
  "music sample_interaction = Some ''m1'' \<and> photo sample_interaction = Some ''p1''
   \<and> insert_MediaInteraction ''i1'' 1700000000 sample_media_db sample_interaction
       = Inr (sample_media_db
               \<lparr> MediaInteraction_rows :=
                   [sample_interaction\<lparr> uuid := Some ''i1'', createdAt := Some 1700000000,
                                         updatedAt := Some 1700000000 \<rparr>] \<rparr>)"
  by (simp add: insert_MediaInteraction_def MediaInteraction_checks_def sample_interaction_def
      sample_media_db_def empty_db_def sample_User_row_def sample_User_def
      unique_among_def not_null_def varchar_def references_def List.map_filter_simps
      MediaInteraction_user_def MediaInteraction_music_def MediaInteraction_photo_def
      MediaInteraction_video_def MediaInteraction_playlist_def)


text \<open>
  C6, as the code has it: an interaction is accepted exactly when its key is new, its
  \<^verbatim>\<open>interactionType\<close> is set and at most 50 characters long, its \<^verbatim>\<open>timestamp\<close> is set, and
  each of the five references, taken alone, is null or the key of an existing row of its
  target. How many of the four targets are set plays no part.
\<close>

theorem insert_MediaInteraction_accepts:
  "(\<exists>d'. insert_MediaInteraction key now d i = Inr d') \<longleftrightarrow>
     Some key \<notin> set (map uuid (MediaInteraction_rows d))
     \<and> (\<exists>t. interactionType i = Some t \<and> length t \<le> 50)
     \<and> timestamp i \<noteq> None
     \<and> set_option (media_interaction.user i) \<subseteq> set (keys d User)
     \<and> set_option (music i) \<subseteq> set (keys d Music)
     \<and> set_option (photo i) \<subseteq> set (keys d Photo)
     \<and> set_option (video i) \<subseteq> set (keys d Video)
     \<and> set_option (playlist i) \<subseteq> set (keys d Playlist)"
proof -
  let ?row = "i\<lparr> uuid := Some key, createdAt := Some now, updatedAt := Some now \<rparr>"
  have "(\<exists>d'. insert_MediaInteraction key now d i = Inr d')
          \<longleftrightarrow> first_error (MediaInteraction_checks d ?row) = None"
    by (auto simp add: insert_MediaInteraction_def Let_def split: option.splits)
  then show ?thesis
    by (simp add: MediaInteraction_checks_None_iff)
qed

theorem insert_MediaInteraction_accepts_witness:
  "Some ''i1'' \<notin> set (map uuid (MediaInteraction_rows sample_media_db))
   \<and> interactionType sample_interaction = Some ''WATCHED'' \<and> length ''WATCHED'' \<le> 50
   \<and> timestamp sample_interaction \<noteq> None
   \<and> set_option (media_interaction.user sample_interaction) \<subseteq> set (keys sample_media_db User)
   \<and> set_option (music sample_interaction) = {''m1''}
   \<and> set_option (photo sample_interaction) = {''p1''}
   \<and> set_option (music sample_interaction) \<subseteq> set (keys sample_media_db Music)
   \<and> set_option (photo sample_interaction) \<subseteq> set (keys sample_media_db Photo)
   \<and> set_option (video sample_interaction) \<subseteq> set (keys sample_media_db Video)
   \<and> set_option (playlist sample_interaction) \<subseteq> set (keys sample_media_db Playlist)
   \<and> (\<exists>d'. insert_MediaInteraction ''i1'' 1700000000 sample_media_db sample_interaction
               = Inr d')"
  using insert_MediaInteraction_accepts[of "''i1''" 1700000000 sample_media_db sample_interaction]
  by (simp add: sample_interaction_def sample_media_db_def empty_db_def sample_User_row_def
      sample_User_def List.map_filter_simps)

text \<open>
  C7. Each media class holds its playlist in one nullable many-to-one relation, so an item
  belongs to at most one playlist; the claim adds that the relation's target is
  \<^verbatim>\<open>Playlist\<close>. The property's type and comment say \<^verbatim>\<open>Playlist\<close>, but the decorator names the
  media class itself: \<^verbatim>\<open>@ManyToOne(() => Music, ...)\<close> in \<^verbatim>\<open>Music\<close>, and likewise in \<^verbatim>\<open>Photo\<close>
  and \<^verbatim>\<open>Video\<close>. Evaluated on the sample store: a reference to the existing playlist is a
  foreign-key violation, a reference to a row of the item's own table is accepted.
\<close>

theorem media_playlist_relation_targets:
  "target Music_playlist = Music \<and> declared Music_playlist = Playlist
   \<and> target Photo_playlist = Photo \<and> declared Photo_playlist = Playlist
   \<and> target Video_playlist = Video \<and> declared Video_playlist = Playlist
   \<and> nullable Music_playlist \<and> nullable Photo_playlist \<and> nullable Video_playlist
   \<and> references sample_media_db Music_playlist (Some ''pl1'')
       = Some (ForeignKeyViolation ''playlist'')
   \<and> references sample_media_db Music_playlist (Some ''m1'') = None
   \<and> references sample_media_db Photo_playlist (Some ''pl1'')
       = Some (ForeignKeyViolation ''playlist'')
   \<and> references sample_media_db Photo_playlist (Some ''p1'') = None
   \<and> references sample_media_db Video_playlist (Some ''pl1'')
       = Some (ForeignKeyViolation ''playlist'')
   \<and> references sample_media_db Video_playlist (Some ''v1'') = None"
  by (simp add: Music_playlist_def Photo_playlist_def Video_playlist_def references_def
      sample_media_db_def empty_db_def)

text \<open>
  C8. Claimed: each of \<^verbatim>\<open>Music\<close>, \<^verbatim>\<open>Photo\<close> and \<^verbatim>\<open>Video\<close> carries the shared media-asset
  attribute set, with a status drawn from active, archived and deleted. \<^verbatim>\<open>Music\<close> extends
  \<^verbatim>\<open>BaseUUIDEntity\<close> and declares, of that set, only \<^verbatim>\<open>url\<close>, \<^verbatim>\<open>title\<close> and \<^verbatim>\<open>format\<close>: it has
  no status, version, description or DRM column. The \<^verbatim>\<open>Photo\<close> and \<^verbatim>\<open>Video\<close> declarations
  that extend \<^verbatim>\<open>BaseUUIDEntity\<close> add only \<^verbatim>\<open>description\<close>. And the \<^verbatim>\<open>status\<close> column of
  \<^verbatim>\<open>BaseMediaItem\<close> is not an enum.
\<close>

theorem media_asset_attributes_counterexample:
  "\<not> carries Music_columns (''status'', Defaulting (DString ''active''))
   \<and> \<not> carries Music_columns (''version'', Defaulting (DInt 1))
   \<and> \<not> carries Music_columns (''description'', Optional)
   \<and> \<not> carries Music_columns (''drmProtected'', Defaulting (DBool False))
   \<and> filter (carries Music_columns) media_asset_attributes
       = [(''url'', Required), (''title'', Required), (''format'', Required)]
   \<and> filter (carries Photo_BaseUUIDEntity_columns) media_asset_attributes
       = [(''url'', Required), (''title'', Required), (''description'', Optional),
          (''format'', Required)]
   \<and> filter (carries Video_BaseUUIDEntity_columns) media_asset_attributes
       = [(''url'', Required), (''title'', Required), (''description'', Optional),
          (''format'', Required)]
   \<and> map_option sqltype (find (\<lambda>c. name c = ''status'') BaseMediaItem_columns)
       \<noteq> Some (T_enum [''active'', ''archived'', ''deleted''])"
proof -
  have m: "\<not> carries Music_columns (''status'', Defaulting (DString ''active''))
   \<and> \<not> carries Music_columns (''version'', Defaulting (DInt 1))
   \<and> \<not> carries Music_columns (''description'', Optional)
   \<and> \<not> carries Music_columns (''drmProtected'', Defaulting (DBool False))"
    by (simp add: Music_columns_def BaseUUIDEntity_columns_def carries_Cons carries_Nil col_def)
  have s: "map_option sqltype (find (\<lambda>c. name c = ''status'') BaseMediaItem_columns)
       \<noteq> Some (T_enum [''active'', ''archived'', ''deleted''])"
    by (simp add: status_column col_def)
  show ?thesis
    using m s Music_carries Photo_BaseUUIDEntity_carries Video_BaseUUIDEntity_carries by blast
qed

text \<open>
  C8, as the code has it: the attribute set is declared once, by \<^verbatim>\<open>BaseMediaItem\<close>, and the
  \<^verbatim>\<open>Photo\<close> and \<^verbatim>\<open>Video\<close> classes that extend it carry all of it: required \<^verbatim>\<open>url\<close> and
  \<^verbatim>\<open>title\<close>, optional \<^verbatim>\<open>description\<close>, \<^verbatim>\<open>version\<close> defaulting to 1, the file storage
  columns, the two counters defaulting to 0 and the DRM block with its defaults. The
  \<^verbatim>\<open>status\<close> column is a \<^verbatim>\<open>varchar(50)\<close> that defaults to "active".
\<close>

theorem media_asset_attributes_carried:
  "list_all (carries Photo_BaseMediaItem_columns) media_asset_attributes
   \<and> list_all (carries Video_BaseMediaItem_columns) media_asset_attributes
   \<and> find (\<lambda>c. name c = ''status'') BaseMediaItem_columns
       = Some ((col ''status'' (T_varchar 50))\<lparr>dflt := Some (DString ''active'')\<rparr>)"
proof -
  have p: "list_all (carries Photo_BaseMediaItem_columns) media_asset_attributes"
    unfolding Photo_BaseMediaItem_columns_def
    by (rule list_all_carries_append[OF BaseMediaItem_carries])
  have v: "list_all (carries Video_BaseMediaItem_columns) media_asset_attributes"
    unfolding Video_BaseMediaItem_columns_def
    by (rule list_all_carries_append[OF BaseMediaItem_carries])
  show ?thesis
    using p v status_column by blast
qed

text \<open>
  C9. In every history of the store the \<^verbatim>\<open>email\<close> values of the user table are pairwise
  distinct, and so are the \<^verbatim>\<open>phoneNumber\<close> values that are not null. A create is accepted
  exactly when the user meets the declared columns (email, pin and password hash present,
  every string within its length) and its key, its email and its phone number, if it has
  one, are not in the table yet. When a user has been created, creating a second user with
  the same email fails and leaves the store as it was; if the second user is acceptable on
  its own (an empty store would take it), the failure is a unique violation, the store's
  conflict error. So of two creates with the same email, each acceptable on its own, the
  first into a table that has neither its key, its email nor its phone number, exactly one
  succeeds: the first appends its row, the second is a unique violation and changes nothing.
\<close>

theorem User_email_phoneNumber_unique:
  "distinct (map email (User_rows (history ws)))
   \<and> distinct (List.map_filter phoneNumber (User_rows (history ws)))
   \<and> ((\<exists>d'. insert_User key now d u = Inr d') \<longleftrightarrow>
        (\<exists>e. email u = Some e \<and> length e \<le> 255)
        \<and> (\<exists>p. pin u = Some p \<and> length p \<le> 128)
        \<and> (\<exists>h. password_hash u = Some h \<and> length h \<le> 255)
        \<and> (\<forall>s \<in> set_option (accountType u) \<union> set_option (user.channel u)
                  \<union> set_option (phoneNumber u) \<union> set_option (secondaryPhoneNumber u)
                  \<union> set_option (secondaryEmail u). length s \<le> 255)
        \<and> Some key \<notin> set (map uuid (User_rows d))
        \<and> email u \<notin> set (map email (User_rows d))
        \<and> (phoneNumber u = None \<or> phoneNumber u \<notin> set (map phoneNumber (User_rows d))))
   \<and> (insert_User ka ta d ua = Inr da \<and> email ub = email ua \<longrightarrow>
        (\<exists>e. insert_User kb tb da ub = Inl e)
        \<and> perform da (Insert_User kb tb ub) = da
        \<and> ((\<exists>dz. insert_User kb tb empty_db ub = Inr dz) \<longrightarrow>
             (\<exists>c. insert_User kb tb da ub = Inl (UniqueViolation c))))
   \<and> ((\<exists>dz. insert_User ka ta empty_db ua = Inr dz)
        \<and> (\<exists>dz. insert_User kb tb empty_db ub = Inr dz)
        \<and> Some ka \<notin> set (map uuid (User_rows d))
        \<and> email ua \<notin> set (map email (User_rows d))
        \<and> (phoneNumber ua = None \<or> phoneNumber ua \<notin> set (map phoneNumber (User_rows d)))
        \<and> email ub = email ua \<longrightarrow>
        (\<exists>dc row. insert_User ka ta d ua = Inr dc \<and> User_rows dc = User_rows d @ [row]
           \<and> email row = email ua
           \<and> (\<exists>c. insert_User kb tb dc ub = Inl (UniqueViolation c))
           \<and> perform dc (Insert_User kb tb ub) = dc))"
proof -
  have ok: "User_rows_ok (User_rows (history ws))" by (rule history_ok)
  then have 1: "distinct (map email (User_rows (history ws)))"
    by (intro distinct_map_no_None) (simp_all add: User_rows_ok_def)
  from ok have 2: "distinct (List.map_filter phoneNumber (User_rows (history ws)))"
    by (simp add: User_rows_ok_def)
  note 3 = insert_User_accepts_iff[of key now d u]
  have 4: "insert_User ka ta d ua = Inr da \<and> email ub = email ua \<longrightarrow>
        (\<exists>e. insert_User kb tb da ub = Inl e)
        \<and> perform da (Insert_User kb tb ub) = da
        \<and> ((\<exists>dz. insert_User kb tb empty_db ub = Inr dz) \<longrightarrow>
             (\<exists>c. insert_User kb tb da ub = Inl (UniqueViolation c)))"
  proof (intro conjI impI)
    assume a: "insert_User ka ta d ua = Inr da \<and> email ub = email ua"
    then show e: "\<exists>e. insert_User kb tb da ub = Inl e"
      using insert_User_duplicate_email(1) by blast
    then show "perform da (Insert_User kb tb ub) = da" by auto
    assume "\<exists>dz. insert_User kb tb empty_db ub = Inr dz"
    then show "\<exists>c. insert_User kb tb da ub = Inl (UniqueViolation c)"
      using a insert_User_duplicate_email(2) by blast
  qed
  have 5: "(\<exists>dz. insert_User ka ta empty_db ua = Inr dz)
        \<and> (\<exists>dz. insert_User kb tb empty_db ub = Inr dz)
        \<and> Some ka \<notin> set (map uuid (User_rows d))
        \<and> email ua \<notin> set (map email (User_rows d))
        \<and> (phoneNumber ua = None \<or> phoneNumber ua \<notin> set (map phoneNumber (User_rows d)))
        \<and> email ub = email ua \<longrightarrow>
        (\<exists>dc row. insert_User ka ta d ua = Inr dc \<and> User_rows dc = User_rows d @ [row]
           \<and> email row = email ua
           \<and> (\<exists>c. insert_User kb tb dc ub = Inl (UniqueViolation c))
           \<and> perform dc (Insert_User kb tb ub) = dc)"
  proof
    assume a: "(\<exists>dz. insert_User ka ta empty_db ua = Inr dz)
        \<and> (\<exists>dz. insert_User kb tb empty_db ub = Inr dz)
        \<and> Some ka \<notin> set (map uuid (User_rows d))
        \<and> email ua \<notin> set (map email (User_rows d))
        \<and> (phoneNumber ua = None \<or> phoneNumber ua \<notin> set (map phoneNumber (User_rows d)))
        \<and> email ub = email ua"
    then obtain dc row where f: "insert_User ka ta d ua = Inr dc"
      "User_rows dc = User_rows d @ [row]" "email row = email ua"
      using insert_User_fresh[of ka ta ua d] by blast
    from a have e: "email ub = email ua" and v: "\<exists>dz. insert_User kb tb empty_db ub = Inr dz"
      by blast+
    have c: "\<exists>c. insert_User kb tb dc ub = Inl (UniqueViolation c)"
      using insert_User_duplicate_email(2)[OF f(1) e v] .
    then have "perform dc (Insert_User kb tb ub) = dc" by auto
    with f c show "\<exists>dc row. insert_User ka ta d ua = Inr dc \<and> User_rows dc = User_rows d @ [row]
           \<and> email row = email ua
           \<and> (\<exists>c. insert_User kb tb dc ub = Inl (UniqueViolation c))
           \<and> perform dc (Insert_User kb tb ub) = dc" by blast
  qed
  show ?thesis using 1 2 3 4 5 by blast
qed

theorem User_email_phoneNumber_unique_witness:
  "insert_User ''u1'' 1700000000 empty_db sample_User
     = Inr (empty_db\<lparr> User_rows := [sample_User_row] \<rparr>)
   \<and> email sample_User = Some ''a@x.com''
   \<and> email (sample_User\<lparr> pin := Some ''9999'' \<rparr>) = email sample_User
   \<and> (\<exists>dz. insert_User ''u2'' 1700000060 empty_db (sample_User\<lparr> pin := Some ''9999'' \<rparr>)
              = Inr dz)
   \<and> (\<exists>c. insert_User ''u2'' 1700000060 (empty_db\<lparr> User_rows := [sample_User_row] \<rparr>)
               (sample_User\<lparr> pin := Some ''9999'' \<rparr>) = Inl (UniqueViolation c))
   \<and> perform (empty_db\<lparr> User_rows := [sample_User_row] \<rparr>)
         (Insert_User ''u2'' 1700000060 (sample_User\<lparr> pin := Some ''9999'' \<rparr>))
       = empty_db\<lparr> User_rows := [sample_User_row] \<rparr>
   \<and> history [Insert_User ''u1'' 1700000000 sample_User,
                Insert_User ''u2'' 1700000060 (sample_User\<lparr> pin := Some ''9999'' \<rparr>)]
       = empty_db\<lparr> User_rows := [sample_User_row] \<rparr>
   \<and> distinct (map email (User_rows (history
         [Insert_User ''u1'' 1700000000 sample_User,
          Insert_User ''u2'' 1700000060 (sample_User\<lparr> pin := Some ''9999'' \<rparr>)])))
   \<and> Some ''u2'' \<notin> set (map uuid (User_rows (empty_db\<lparr> User_rows := [sample_User_row] \<rparr>)))
   \<and> Some ''b@x.com''
         \<notin> set (map email (User_rows (empty_db\<lparr> User_rows := [sample_User_row] \<rparr>)))
   \<and> phoneNumber (sample_User\<lparr> email := Some ''b@x.com'' \<rparr>) = None
   \<and> (\<exists>d'. insert_User ''u2'' 1700000060 (empty_db\<lparr> User_rows := [sample_User_row] \<rparr>)
               (sample_User\<lparr> email := Some ''b@x.com'' \<rparr>) = Inr d')
   \<and> (\<exists>dc row. insert_User ''u2'' 1700000060 (empty_db\<lparr> User_rows := [sample_User_row] \<rparr>)
                   (sample_User\<lparr> email := Some ''b@x.com'' \<rparr>) = Inr dc
          \<and> User_rows dc = [sample_User_row, row]
          \<and> email row = Some ''b@x.com''
          \<and> (\<exists>c. insert_User ''u3'' 1700000120 dc
                      (sample_User\<lparr> email := Some ''b@x.com'', pin := Some ''9999'' \<rparr>)
                    = Inl (UniqueViolation c))
          \<and> perform dc (Insert_User ''u3'' 1700000120
                            (sample_User\<lparr> email := Some ''b@x.com'', pin := Some ''9999'' \<rparr>))
              = dc)"
proof -
  let ?u2 = "sample_User\<lparr> pin := Some ''9999'' \<rparr>"
  let ?ub = "sample_User\<lparr> email := Some ''b@x.com'' \<rparr>"
  let ?uc = "sample_User\<lparr> email := Some ''b@x.com'', pin := Some ''9999'' \<rparr>"
  let ?d1 = "empty_db\<lparr> User_rows := [sample_User_row] \<rparr>"
  let ?ws = "[Insert_User ''u1'' 1700000000 sample_User, Insert_User ''u2'' 1700000060 ?u2]"
  note T = User_email_phoneNumber_unique[where ws = ?ws and ka = "''u1''" and ta = 1700000000
      and d = empty_db and ua = sample_User and da = ?d1 and ub = ?u2 and kb = "''u2''"
      and tb = 1700000060 and key = "''u2''" and now = 1700000060 and u = ?u2]
  note E = User_email_phoneNumber_unique[where d = empty_db and key = "''u2''"
      and now = 1700000060 and u = ?ub and ws = "[]" and ka = "''u1''" and ta = 1700000000
      and ua = sample_User and da = ?d1 and ub = ?u2 and kb = "''u2''" and tb = 1700000060]
  note F = User_email_phoneNumber_unique[where d = empty_db and key = "''u3''"
      and now = 1700000120 and u = ?uc and ws = "[]" and ka = "''u1''" and ta = 1700000000
      and ua = sample_User and da = ?d1 and ub = ?u2 and kb = "''u2''" and tb = 1700000060]
  note G = User_email_phoneNumber_unique[where d = ?d1 and key = "''u2''"
      and now = 1700000060 and u = ?ub and ka = "''u2''" and ta = 1700000060 and ua = ?ub
      and kb = "''u3''" and tb = 1700000120 and ub = ?uc and ws = "[]" and da = ?d1]
  have 1: "insert_User ''u1'' 1700000000 empty_db sample_User = Inr ?d1"
    by (rule insert_sample_User)
  have 2: "email sample_User = Some ''a@x.com''" by (simp add: sample_User_def)
  have 3: "email ?u2 = email sample_User" by simp
  have 4: "\<exists>dz. insert_User ''u2'' 1700000060 empty_db ?u2 = Inr dz"
    using T by (simp add: sample_User_def empty_db_def)
  from T 1 3 4 have 5: "\<exists>c. insert_User ''u2'' 1700000060 ?d1 ?u2 = Inl (UniqueViolation c)"
    and 6: "perform ?d1 (Insert_User ''u2'' 1700000060 ?u2) = ?d1"
    by blast+
  have 7: "history ?ws = ?d1"
    using 1 6 by (simp add: history_def)
  from T have 8: "distinct (map email (User_rows (history ?ws)))" by blast
  have 9: "Some ''u2'' \<notin> set (map uuid (User_rows ?d1))"
    by (simp add: sample_User_row_def)
  have 10: "Some ''b@x.com'' \<notin> set (map email (User_rows ?d1))"
    by (simp add: sample_User_row_def sample_User_def)
  have 11: "phoneNumber ?ub = None" by (simp add: sample_User_def)
  have eb: "email ?ub = Some ''b@x.com''" "email ?uc = email ?ub" by simp_all
  have vb: "\<exists>dz. insert_User ''u2'' 1700000060 empty_db ?ub = Inr dz"
    using E by (simp add: sample_User_def empty_db_def)
  have vc: "\<exists>dz. insert_User ''u3'' 1700000120 empty_db ?uc = Inr dz"
    using F by (simp add: sample_User_def empty_db_def)
  have 12: "\<exists>d'. insert_User ''u2'' 1700000060 ?d1 ?ub = Inr d'"
    using G 9 10 by (simp add: sample_User_def)
  have h: "(\<exists>dz. insert_User ''u2'' 1700000060 empty_db ?ub = Inr dz)
        \<and> (\<exists>dz. insert_User ''u3'' 1700000120 empty_db ?uc = Inr dz)
        \<and> Some ''u2'' \<notin> set (map uuid (User_rows ?d1))
        \<and> email ?ub \<notin> set (map email (User_rows ?d1))
        \<and> (phoneNumber ?ub = None \<or> phoneNumber ?ub \<notin> set (map phoneNumber (User_rows ?d1)))
        \<and> email ?uc = email ?ub"
    using vb vc 9 10 11 by (intro conjI) simp_all
  have "\<exists>dc row. insert_User ''u2'' 1700000060 ?d1 ?ub = Inr dc
          \<and> User_rows dc = User_rows ?d1 @ [row] \<and> email row = email ?ub
          \<and> (\<exists>c. insert_User ''u3'' 1700000120 dc ?uc = Inl (UniqueViolation c))
          \<and> perform dc (Insert_User ''u3'' 1700000120 ?uc) = dc"
    by (rule G[THEN conjunct2, THEN conjunct2, THEN conjunct2, THEN conjunct2, THEN mp, OF h])
  then have 13: "\<exists>dc row. insert_User ''u2'' 1700000060 ?d1 ?ub = Inr dc
          \<and> User_rows dc = [sample_User_row, row] \<and> email row = Some ''b@x.com''
          \<and> (\<exists>c. insert_User ''u3'' 1700000120 dc ?uc = Inl (UniqueViolation c))
          \<and> perform dc (Insert_User ''u3'' 1700000120 ?uc) = dc"
    by (simp add: eb)
  show ?thesis using 1 2 3 4 5 6 7 8 9 10 11 12 13 by blast
qed

text \<open>
  C10. Claimed: if the message is unset or falsy at write time, the message is persisted
  exactly as it is. For an unset (\<^verbatim>\<open>undefined\<close>) or \<^verbatim>\<open>null\<close> message nothing is persisted: the
  hook leaves the message alone, and the create fails the NOT NULL check of the
  \<^verbatim>\<open>message\<close> column.
\<close>

theorem compressMessage_falsy_message_counterexample:
  "\<not> truthy (message (sample_Notification\<lparr> message := Undefined \<rparr>))
   \<and> insert_Notification (stored_zlib 100) ''n1'' 1700000000 empty_db
         (sample_Notification\<lparr> message := Undefined \<rparr>)
       = (Inl (NotNullViolation ''message''), [])
   \<and> \<not> truthy (message (sample_Notification\<lparr> message := Null \<rparr>))
   \<and> insert_Notification (stored_zlib 100) ''n1'' 1700000000 empty_db
         (sample_Notification\<lparr> message := Null \<rparr>)
       = (Inl (NotNullViolation ''message''), [])"
  by (simp add: insert_Notification_def compressMessage_def sample_Notification_def
      Notification_defaults_def Notification_checks_def references_def Notification_studio_def
      Notification_user_def unique_among_def not_null_def enum_def varchar_def empty_db_def
      message_not_null_def)

text \<open>
  C10, as the code has it. If the message is unset or falsy at write time (\<^verbatim>\<open>undefined\<close>,
  \<^verbatim>\<open>null\<close> or the empty string), the hook does nothing: the entity is unchanged, nothing is
  printed and the codec is not called, so a create and an update come out the same under
  every codec. For the empty string, a create or an update that the store accepts stores a
  message with no bytes, without any compressed encoding. For an unset or \<^verbatim>\<open>null\<close> message a
  create is rejected and nothing is stored.
\<close>

theorem compressMessage_falsy_message:
  assumes "\<not> truthy (message n)"
  shows "compressMessage z n = (n, [])
       \<and> insert_Notification z key now d n = insert_Notification z' key now d n
       \<and> update_Notification z now d n = update_Notification z' now d n
       \<and> (message n = JSString [] \<longrightarrow>
            (\<forall>d'. fst (insert_Notification z key now d n) = Inr d' \<longrightarrow>
               map_option (Buffer_from \<circ> message) (find_Notification d' key) = Some (Inr []))
            \<and> (\<forall>d' old. fst (update_Notification z now d n) = Inr d' \<and> uuid n = Some key
                    \<and> find_Notification d key = Some old \<longrightarrow>
               map_option (Buffer_from \<circ> message) (find_Notification d' key) = Some (Inr [])))
       \<and> (message n = Undefined \<or> message n = Null \<longrightarrow>
            (\<exists>e. fst (insert_Notification z key now d n) = Inl e))"
proof -
  have c: "compressMessage z n = (n, [])" "compressMessage z' n = (n, [])"
    using assms by (simp_all add: compressMessage_def)
  have i: "insert_Notification z key now d n = insert_Notification z' key now d n"
    by (rule insert_Notification_codec) (simp add: c)
  have u: "update_Notification z now d n = update_Notification z' now d n"
    by (rule update_Notification_codec) (simp add: c)
  have e: "utf8_encode [] = []" by (simp add: utf8_encode_def)
  have s: "message n = JSString [] \<longrightarrow>
            (\<forall>d'. fst (insert_Notification z key now d n) = Inr d' \<longrightarrow>
               map_option (Buffer_from \<circ> message) (find_Notification d' key) = Some (Inr []))
            \<and> (\<forall>d' old. fst (update_Notification z now d n) = Inr d' \<and> uuid n = Some key
                    \<and> find_Notification d key = Some old \<longrightarrow>
               map_option (Buffer_from \<circ> message) (find_Notification d' key) = Some (Inr []))"
    using insert_Notification_stores[of z key now d n]
      update_Notification_stores[of z now d n _ key] by (auto simp add: c e)
  have r: "message n = Undefined \<or> message n = Null \<longrightarrow>
            (\<exists>e. fst (insert_Notification z key now d n) = Inl e)"
    using insert_Notification_null_message by blast
  show ?thesis using c(1) i u s r by blast
qed

theorem compressMessage_falsy_message_witness:
  "\<not> truthy (message sample_empty_message)
   \<and> message sample_empty_message = JSString []
   \<and> compressMessage (stored_zlib 100) sample_empty_message = (sample_empty_message, [])
   \<and> insert_Notification (stored_zlib 100) ''n1'' 1700000000 empty_db sample_empty_message
       = insert_Notification (stored_zlib 10) ''n1'' 1700000000 empty_db sample_empty_message
   \<and> fst (insert_Notification (stored_zlib 100) ''n1'' 1700000000 empty_db sample_empty_message)
       = Inr (sample_db (sample_stored (JSString [])))
   \<and> map_option (Buffer_from \<circ> message)
         (find_Notification (sample_db (sample_stored (JSString []))) ''n1'')
       = Some (Inr [])
   \<and> \<not> truthy (message (sample_stored (JSString [])))
   \<and> message (sample_stored (JSString [])) = JSString []
   \<and> update_Notification (stored_zlib 100) 1700000060
         (sample_db (sample_stored (JSBuffer compressed_Hi))) (sample_stored (JSString []))
       = update_Notification (stored_zlib 10) 1700000060
           (sample_db (sample_stored (JSBuffer compressed_Hi))) (sample_stored (JSString []))
   \<and> fst (update_Notification (stored_zlib 100) 1700000060
             (sample_db (sample_stored (JSBuffer compressed_Hi))) (sample_stored (JSString [])))
       = Inr (sample_db ((sample_stored (JSString []))\<lparr> updatedAt := Some 1700000060 \<rparr>))
   \<and> uuid (sample_stored (JSString [])) = Some ''n1''
   \<and> find_Notification (sample_db (sample_stored (JSBuffer compressed_Hi))) ''n1''
       = Some (sample_stored (JSBuffer compressed_Hi))
   \<and> map_option (Buffer_from \<circ> message)
         (find_Notification
            (sample_db ((sample_stored (JSString []))\<lparr> updatedAt := Some 1700000060 \<rparr>)) ''n1'')
       = Some (Inr [])
   \<and> \<not> truthy (message (sample_Notification\<lparr> message := Undefined \<rparr>))
   \<and> message (sample_Notification\<lparr> message := Undefined \<rparr>) = Undefined
   \<and> (\<exists>e. fst (insert_Notification (stored_zlib 100) ''n1'' 1700000000 empty_db
                   (sample_Notification\<lparr> message := Undefined \<rparr>)) = Inl e)"
proof -
  let ?z = "stored_zlib 100"
  let ?y = "stored_zlib 10"
  let ?row = "sample_stored (JSString [])"
  let ?old = "sample_stored (JSBuffer compressed_Hi)"
  let ?new = "?row\<lparr> updatedAt := Some 1700000060 \<rparr>"
  let ?un = "sample_Notification\<lparr> message := Undefined \<rparr>"
  have m: "message sample_empty_message = JSString []" "message ?row = JSString []"
    "message ?un = Undefined"
    by (simp_all add: sample_empty_message_def sample_stored_def)
  have f1: "\<not> truthy (message sample_empty_message)" and f2: "\<not> truthy (message ?row)"
    and f3: "\<not> truthy (message ?un)"
    by (simp_all add: m)
  note A = compressMessage_falsy_message[OF f1, where z = ?z and z' = ?y and key = "''n1''"
      and now = 1700000000 and d = empty_db]
  note B = compressMessage_falsy_message[OF f2, where z = ?z and z' = ?y and key = "''n1''"
      and now = 1700000060 and d = "sample_db ?old"]
  note C = compressMessage_falsy_message[OF f3, where z = ?z and z' = ?y and key = "''n1''"
      and now = 1700000000 and d = empty_db]
  have c1: "compressMessage ?z sample_empty_message = (sample_empty_message, [])"
    using A by simp
  have e1: "insert_Notification ?z ''n1'' 1700000000 empty_db sample_empty_message
       = insert_Notification ?y ''n1'' 1700000000 empty_db sample_empty_message"
    using A by blast
  have i: "fst (insert_Notification ?z ''n1'' 1700000000 empty_db sample_empty_message)
             = Inr (sample_db ?row)"
    using insert_sample[of ?z "JSString []" "JSString []" "[]"] c1
    by (simp add: sample_empty_message_def message_not_null_def)
  from A i m(1) have r1: "map_option (Buffer_from \<circ> message)
         (find_Notification (sample_db ?row) ''n1'') = Some (Inr [])"
    by blast
  have c2: "compressMessage ?z ?row = (?row, [])" using B by simp
  have e2: "update_Notification ?z 1700000060 (sample_db ?old) ?row
       = update_Notification ?y 1700000060 (sample_db ?old) ?row"
    using B by blast
  have uu: "uuid ?row = uuid ?old" by (simp add: sample_stored_def)
  have u: "fst (update_Notification ?z 1700000060 (sample_db ?old) ?row) = Inr (sample_db ?new)"
    using update_sample[OF c2 uu, of 1700000060]
      sample_checks[where m = "JSString []" and s = "''pending''" and old = ?old
        and dl = None and el = None and t = 1700000060]
    by (simp add: message_not_null_def sample_stored_def)
  have k: "uuid ?row = Some ''n1''" by (simp add: sample_stored_def)
  have fd: "find_Notification (sample_db ?old) ''n1'' = Some ?old"
    by (rule find_sample_db) (simp add: sample_stored_def)
  from B u k fd m(2) have r2: "map_option (Buffer_from \<circ> message)
         (find_Notification (sample_db ?new) ''n1'') = Some (Inr [])"
    by blast
  from C m(3) have r3: "\<exists>e. fst (insert_Notification ?z ''n1'' 1700000000 empty_db ?un) = Inl e"
    by blast
  show ?thesis using f1 m(1) c1 e1 i r1 f2 m(2) e2 u k fd r2 f3 m(3) r3 by blast
qed

end
